theory Spec2Isabelle
  imports Complex_Main "HOL-Library.Sublist" "HOL-Library.AList"
begin

section \<open>Python values and exceptions\<close>

text \<open>
  The three services (producer/app.py, order-processing/app.py, notification/app.py)
  exchange JSON documents. A value produced by \<^verbatim>\<open>json.loads\<close> is one
  of: None, a bool, an int, a float, a str, a list or a dict with str keys. A dict keeps
  its insertion order, so it is an association list here; lookup is \<open>map_of\<close> and
  assignment is \<open>AList.update\<close> (an existing key keeps its place, a new key goes
  to the end, as in Python).
\<close>

datatype pyfloat = Finite rat | PosInf | NegInf | NaN

datatype json =
    JNull
  | JBool bool
  | JInt int
  | JFloat pyfloat
  | JStr string
  | JArr "json list"
  | JObj "(string \<times> json) list"

text \<open>
  The exception classes that the sources name or that the operations used there raise.
  \<open>KeyboardInterrupt\<close> is the only one that is not a subclass of
  \<^verbatim>\<open>Exception\<close>; \<open>BotoCoreError\<close> stands for the SDK's failures that
  are not \<open>ClientError\<close> (no endpoint, connection timeout, parameter validation).
\<close>

datatype exn =
    JSONDecodeError
  | KeyError
  | TypeError
  | ValueError
  | OverflowError
  | UnicodeEncodeError
  | RecursionError
  | ClientError
  | BotoCoreError
  | KeyboardInterrupt

definition is_Exception :: "exn \<Rightarrow> bool" where
  "is_Exception e = (e \<noteq> KeyboardInterrupt)"

text \<open>A computation that may raise: \<open>Inl e\<close> is the exception, \<open>Inr x\<close> the value.\<close>

definition and_then :: "exn + 'a \<Rightarrow> ('a \<Rightarrow> exn + 'b) \<Rightarrow> exn + 'b" where
  "and_then r f = (case r of Inl e \<Rightarrow> Inl e | Inr x \<Rightarrow> f x)"

text \<open>\<^verbatim>\<open>key in v\<close> for a str \<open>key\<close>: key test on a dict, element test on a list,
  substring test on a str, TypeError on everything else.\<close>

definition py_in :: "string \<Rightarrow> json \<Rightarrow> exn + bool" where
  "py_in key v =
     (case v of
        JObj kv \<Rightarrow> Inr (map_of kv key \<noteq> None)
      | JArr xs \<Rightarrow> Inr (List.member xs (JStr key))
      | JStr s \<Rightarrow> Inr (sublist key s)
      | _ \<Rightarrow> Inl TypeError)"

text \<open>\<^verbatim>\<open>v[key]\<close> for a str \<open>key\<close>: KeyError on a dict without the key, TypeError
  on a list, a str (indices must be integers) and on the values that are not
  subscriptable.\<close>

definition py_getitem :: "json \<Rightarrow> string \<Rightarrow> exn + json" where
  "py_getitem v key =
     (case v of
        JObj kv \<Rightarrow> (case map_of kv key of None \<Rightarrow> Inl KeyError | Some x \<Rightarrow> Inr x)
      | _ \<Rightarrow> Inl TypeError)"

text \<open>\<^verbatim>\<open>v[key] = x\<close> for a str \<open>key\<close>.\<close>

definition py_setitem :: "json \<Rightarrow> string \<Rightarrow> json \<Rightarrow> exn + json" where
  "py_setitem v key x =
     (case v of
        JObj kv \<Rightarrow> Inr (JObj (AList.update key x kv))
      | _ \<Rightarrow> Inl TypeError)"

fun join :: "string \<Rightarrow> string list \<Rightarrow> string" where
  "join sep [] = []"
| "join sep [x] = x"
| "join sep (x # y # ys) = x @ sep @ join sep (y # ys)"

fun strs :: "json list \<Rightarrow> string list option" where
  "strs [] = Some []"
| "strs (JStr s # xs) = map_option ((#) s) (strs xs)"
| "strs (_ # xs) = None"

text \<open>\<^verbatim>\<open>sep.join(v)\<close>: \<open>v\<close> must be iterable and every item a str. A list
  yields its elements, a str its characters, a dict its keys.\<close>

definition py_join :: "string \<Rightarrow> json \<Rightarrow> exn + string" where
  "py_join sep v =
     (case v of
        JArr xs \<Rightarrow> (case strs xs of None \<Rightarrow> Inl TypeError | Some ss \<Rightarrow> Inr (join sep ss))
      | JStr s \<Rightarrow> Inr (join sep (map (\<lambda>c. [c]) s))
      | JObj kv \<Rightarrow> Inr (join sep (map fst kv))
      | _ \<Rightarrow> Inl TypeError)"

text \<open>
  The format specification \<^verbatim>\<open>:.2f\<close> inside an f-string. Only whether it raises
  matters to the control flow, so the digits are not computed. A float and a bool are
  accepted; an int is converted to a double first, which overflows from
  \<open>2^1024 - 2^970\<close> on (round half to even); a str raises ValueError and None, a
  list and a dict raise TypeError.
\<close>

definition py_format_2f :: "json \<Rightarrow> exn + unit" where
  "py_format_2f v =
     (case v of
        JFloat x \<Rightarrow> Inr ()
      | JBool b \<Rightarrow> Inr ()
      | JInt n \<Rightarrow> (if \<bar>n\<bar> < 2 ^ 1024 - 2 ^ 970 then Inr () else Inl OverflowError)
      | JStr s \<Rightarrow> Inl ValueError
      | _ \<Rightarrow> Inl TypeError)"

section \<open>The outside world\<close>

text \<open>
  What the services do to the outside is recorded as a trace of events: the lines they
  print that tell one path from another (banners and the order's details are left out),
  the increments of the Prometheus counters, the samples given to the duration
  histogram, and the calls of \<^verbatim>\<open>sqs_client.delete_message\<close>. \<open>Handled\<close>
  is an instrumentation event: it is placed where the consumer loop tests the handler's
  result, and keeps the receipt handle, the argument given to the handler and the value
  it returned.
\<close>

datatype counter = Received | Processed | Failed | Published | Publish_failed

datatype line =
    Received_message nat
  | Order_now_processed
  | Error_parsing
  | Error_processing
  | Notification_sent
  | Error_sending
  | Error_receiving
  | Error_deleting
  | Message_deleted
  | Dot
  | Summary nat

datatype harg = Text string | Parsed json

datatype event =
    Print line
  | Inc counter
  | Observe
  | Sqs_delete string
  | Handled string harg bool

text \<open>
  The libraries and services that the code calls are parameters: \<open>loads\<close> and
  \<open>dumps\<close> are \<^verbatim>\<open>json.loads\<close> and \<^verbatim>\<open>json.dumps\<close>,
  \<open>py_repr\<close> is the text that an f-string makes of a value that is not a str,
  \<open>encodable\<close> tells whether the codec of standard output accepts a text,
  \<open>sqs_delete\<close> tells for a receipt handle which exception, if any, the SDK's
  delete call raises, and \<open>utcnow\<close> is the clock read while the n-th message is
  handled.
\<close>

record env =
  loads :: "string \<Rightarrow> exn + json"
  dumps :: "json \<Rightarrow> string"
  py_repr :: "json \<Rightarrow> string"
  encodable :: "string \<Rightarrow> bool"
  sqs_delete :: "string \<Rightarrow> exn option"
  utcnow :: "nat \<Rightarrow> string"

record message =
  Body :: string
  ReceiptHandle :: string

text \<open>
  A character of a Python str is a \<open>char\<close> here. \<^verbatim>\<open>print\<close> encodes its
  text for standard output and raises UnicodeEncodeError when the codec refuses it (a
  lone surrogate on a UTF-8 stream). The texts that the services write themselves are
  taken to be encodable, as every path of every service prints some of them; what is
  checked is the text that comes from a message: \<open>py_str\<close> is what an f-string
  puts in place of a value, and \<open>py_print\<close> is the print of a line with that text
  in it.
\<close>

definition py_str :: "env \<Rightarrow> json \<Rightarrow> string" where
  "py_str env v = (case v of JStr s \<Rightarrow> s | _ \<Rightarrow> py_repr env v)"

definition py_print :: "env \<Rightarrow> string \<Rightarrow> exn + unit" where
  "py_print env text = (if encodable env text then Inr () else Inl UnicodeEncodeError)"

section \<open>order-processing/app.py\<close>

text \<open>
  The statements of \<^verbatim>\<open>process_order\<close> between the parse and the return, on
  the parsed \<open>order\<close>. The prints read and print \<open>order_id\<close>,
  \<open>customer_id\<close>, \<open>items\<close> (joined), \<open>total_amount\<close> (formatted
  with two decimals, so its text is digits) and \<open>status\<close>; then the status and
  the processing time are assigned, and \<open>order_id\<close> is read and printed once more.
  The result is the local variable \<open>order\<close> after the assignments.
\<close>

definition order_transition :: "env \<Rightarrow> string \<Rightarrow> json \<Rightarrow> exn + json" where
  "order_transition env now order =
     and_then (py_getitem order ''order_id'') (\<lambda>order_id.
     and_then (py_print env (py_str env order_id)) (\<lambda>_.
     and_then (py_getitem order ''customer_id'') (\<lambda>customer_id.
     and_then (py_print env (py_str env customer_id)) (\<lambda>_.
     and_then (py_getitem order ''items'') (\<lambda>items.
     and_then (py_join '', '' items) (\<lambda>joined.
     and_then (py_print env joined) (\<lambda>_.
     and_then (py_getitem order ''total_amount'') (\<lambda>amount.
     and_then (py_format_2f amount) (\<lambda>_.
     and_then (py_getitem order ''status'') (\<lambda>status.
     and_then (py_print env (py_str env status)) (\<lambda>_.
     and_then (py_setitem order ''status'' (JStr ''processing'')) (\<lambda>order1.
     and_then (py_setitem order1 ''processed_at'' (JStr now)) (\<lambda>order2.
     and_then (py_getitem order2 ''order_id'') (\<lambda>order_id2.
     and_then (py_print env (py_str env order_id2)) (\<lambda>_.
     Inr order2)))))))))))))))"

text \<open>
  \<^verbatim>\<open>process_order(message_body)\<close>. The histogram's timer is a context manager
  around the whole body, so it takes its sample on every exit. An exception that is not
  an \<^verbatim>\<open>Exception\<close> passes both handlers. The function returns a bool; the
  second component of the result is not returned by the code: it is the local variable
  \<open>order\<close> as the function leaves it when it returns success.
\<close>

definition process_order ::
  "env \<Rightarrow> string \<Rightarrow> string \<Rightarrow> (exn + bool) \<times> json option \<times> event list" where
  "process_order env now message_body =
     (case and_then (loads env message_body) (order_transition env now) of
        Inr order \<Rightarrow>
          (Inr True, Some order, [Print Order_now_processed, Inc Processed, Observe])
      | Inl e \<Rightarrow>
          if e = JSONDecodeError
          then (Inr False, None, [Print Error_parsing, Inc Failed, Observe])
          else if is_Exception e
          then (Inr False, None, [Print Error_processing, Inc Failed, Observe])
          else (Inl e, None, [Observe]))"

text \<open>
  \<^verbatim>\<open>receive_messages\<close>, given what \<^verbatim>\<open>sqs_client.receive_message\<close> does:
  it raises, or it returns a response that has a \<open>Messages\<close> entry or has none.
\<close>

definition receive_messages :: "exn + message list option \<Rightarrow> (exn + message list) \<times> event list" where
  "receive_messages sdk =
     (case sdk of
        Inr response \<Rightarrow> (Inr (case response of None \<Rightarrow> [] | Some ms \<Rightarrow> ms), [])
      | Inl e \<Rightarrow>
          if e = ClientError then (Inr [], [Print Error_receiving])
          else (Inl e, []))"

definition delete_message :: "env \<Rightarrow> string \<Rightarrow> (exn + bool) \<times> event list" where
  "delete_message env receipt_handle =
     (case sqs_delete env receipt_handle of
        None \<Rightarrow> (Inr True, [Sqs_delete receipt_handle])
      | Some e \<Rightarrow>
          if e = ClientError then (Inr False, [Sqs_delete receipt_handle, Print Error_deleting])
          else (Inl e, [Sqs_delete receipt_handle]))"

text \<open>
  Lines 118-119 of the consumer loop (the same in both consumers): a \<open>Message\<close>
  value that is a str is parsed again, any other value is taken as it is.
\<close>

definition second_parse :: "env \<Rightarrow> json \<Rightarrow> exn + json" where
  "second_parse env sns_message =
     (case sns_message of
        JStr s \<Rightarrow> loads env s
      | _ \<Rightarrow> Inr sns_message)"

text \<open>
  The block \<^verbatim>\<open>if process_order(arg): delete_message(...); print(...)\<close>, which
  the loop body has once in each branch. The result is the exception that leaves the
  block, if any.
\<close>

definition order_dispatch :: "env \<Rightarrow> nat \<Rightarrow> message \<Rightarrow> string \<Rightarrow> exn option \<times> event list" where
  "order_dispatch env n message arg =
     (case process_order env (utcnow env n) arg of
        (Inl e, order, ev) \<Rightarrow> (Some e, ev)
      | (Inr ok, order, ev) \<Rightarrow>
          if ok then
            (case delete_message env (ReceiptHandle message) of
               (Inl e, ev') \<Rightarrow>
                 (Some e, ev @ [Handled (ReceiptHandle message) (Text arg) True] @ ev')
             | (Inr deleted, ev') \<Rightarrow>
                 (None, ev @ [Handled (ReceiptHandle message) (Text arg) True] @ ev'
                          @ [Print Message_deleted]))
          else (None, ev @ [Handled (ReceiptHandle message) (Text arg) False]))"

text \<open>
  The body of \<^verbatim>\<open>for message in messages\<close> in order-processing's
  \<^verbatim>\<open>main\<close>; \<open>n\<close> is \<open>message_count\<close> after its increment. None of
  the statements before the handler is inside a \<^verbatim>\<open>try\<close> of its own.
\<close>

definition order_handle_message :: "env \<Rightarrow> nat \<Rightarrow> message \<Rightarrow> exn option \<times> event list" where
  "order_handle_message env n message =
     (let received = [Inc Received, Print (Received_message n)] in
      case loads env (Body message) of
        Inl e \<Rightarrow> (Some e, received)
      | Inr body \<Rightarrow>
          (case py_in ''Message'' body of
             Inl e \<Rightarrow> (Some e, received)
           | Inr wrapped \<Rightarrow>
               if wrapped then
                 (case py_getitem body ''Message'' of
                    Inl e \<Rightarrow> (Some e, received)
                  | Inr sns_message \<Rightarrow>
                      (case second_parse env sns_message of
                         Inl e \<Rightarrow> (Some e, received)
                       | Inr sns_message' \<Rightarrow>
                           (case order_dispatch env n message (dumps env sns_message') of
                              (r, ev) \<Rightarrow> (r, received @ ev))))
               else
                 (case order_dispatch env n message (Body message) of
                    (r, ev) \<Rightarrow> (r, received @ ev))))"

section \<open>The consumer loop\<close>

text \<open>
  Both consumers run the same two loops around their own body. The \<^verbatim>\<open>for\<close>
  loop stops at the first exception that leaves the body; the result has the exception,
  \<open>message_count\<close> and the events.
\<close>

fun for_messages ::
  "(nat \<Rightarrow> message \<Rightarrow> exn option \<times> event list) \<Rightarrow> nat \<Rightarrow> message list
     \<Rightarrow> exn option \<times> nat \<times> event list" where
  "for_messages handle message_count [] = (None, message_count, [])"
| "for_messages handle message_count (m # ms) =
     (case handle (Suc message_count) m of
        (Some e, ev) \<Rightarrow> (Some e, Suc message_count, ev)
      | (None, ev) \<Rightarrow>
          (case for_messages handle (Suc message_count) ms of
             (r, message_count', ev') \<Rightarrow> (r, message_count', ev @ ev')))"

text \<open>
  \<^verbatim>\<open>while True\<close> inside \<^verbatim>\<open>try ... except KeyboardInterrupt\<close>. The
  loop has no exit of its own, so the model runs it against a finite script of what the
  SDK's receive call does at each poll; \<open>Polling\<close> says that the script is used up
  and the loop is still running. KeyboardInterrupt ends \<^verbatim>\<open>main\<close> with the
  summary; any other exception leaves \<^verbatim>\<open>main\<close> and ends the process.
\<close>

datatype status = Polling | Stopped | Crashed exn

definition leave_loop :: "exn \<Rightarrow> nat \<Rightarrow> event list \<Rightarrow> status \<times> nat \<times> event list" where
  "leave_loop e message_count ev =
     (if e = KeyboardInterrupt then (Stopped, message_count, ev @ [Print (Summary message_count)])
      else (Crashed e, message_count, ev))"

fun consumer_loop ::
  "(nat \<Rightarrow> message \<Rightarrow> exn option \<times> event list) \<Rightarrow> nat \<Rightarrow> (exn + message list option) list
     \<Rightarrow> status \<times> nat \<times> event list" where
  "consumer_loop handle message_count [] = (Polling, message_count, [])"
| "consumer_loop handle message_count (sdk # script) =
     (case receive_messages sdk of
        (Inl e, ev) \<Rightarrow> leave_loop e message_count ev
      | (Inr messages, ev) \<Rightarrow>
          if messages \<noteq> [] then
            (case for_messages handle message_count messages of
               (Some e, message_count', ev') \<Rightarrow> leave_loop e message_count' (ev @ ev')
             | (None, message_count', ev') \<Rightarrow>
                 (case consumer_loop handle message_count' script of
                    (st, c, ev'') \<Rightarrow> (st, c, ev @ ev' @ ev'')))
          else
            (case consumer_loop handle message_count script of
               (st, c, ev'') \<Rightarrow> (st, c, ev @ [Print Dot] @ ev'')))"

definition order_processing_main ::
  "env \<Rightarrow> (exn + message list option) list \<Rightarrow> status \<times> nat \<times> event list" where
  "order_processing_main env script = consumer_loop (order_handle_message env) 0 script"

section \<open>notification/app.py\<close>

text \<open>
  \<^verbatim>\<open>send_notification(order)\<close> gets the parsed value. It reads
  \<open>customer_id\<close>, \<open>order_id\<close> and \<open>total_amount\<close>, prints the first
  two, formats and prints the total, joins and prints the items, and formats the total
  again for the notification's body. The file has no counter and no histogram.
\<close>

definition send_notification :: "env \<Rightarrow> json \<Rightarrow> (exn + bool) \<times> event list" where
  "send_notification env order =
     (case and_then (py_getitem order ''customer_id'') (\<lambda>customer_id.
           and_then (py_getitem order ''order_id'') (\<lambda>order_id.
           and_then (py_getitem order ''total_amount'') (\<lambda>amount.
           and_then (py_print env (py_str env customer_id)) (\<lambda>_.
           and_then (py_print env (py_str env order_id)) (\<lambda>_.
           and_then (py_format_2f amount) (\<lambda>_.
           and_then (py_getitem order ''items'') (\<lambda>items.
           and_then (py_join '', '' items) (\<lambda>joined.
           and_then (py_print env joined) (\<lambda>_.
           and_then (py_format_2f amount) (\<lambda>_.
           Inr ())))))))))) of
        Inr u \<Rightarrow> (Inr True, [Print Notification_sent])
      | Inl e \<Rightarrow>
          if is_Exception e then (Inr False, [Print Error_sending])
          else (Inl e, []))"

definition notify_dispatch :: "env \<Rightarrow> message \<Rightarrow> json \<Rightarrow> exn option \<times> event list" where
  "notify_dispatch env message arg =
     (case send_notification env arg of
        (Inl e, ev) \<Rightarrow> (Some e, ev)
      | (Inr ok, ev) \<Rightarrow>
          if ok then
            (case delete_message env (ReceiptHandle message) of
               (Inl e, ev') \<Rightarrow>
                 (Some e, ev @ [Handled (ReceiptHandle message) (Parsed arg) True] @ ev')
             | (Inr deleted, ev') \<Rightarrow>
                 (None, ev @ [Handled (ReceiptHandle message) (Parsed arg) True] @ ev'
                          @ [Print Message_deleted]))
          else (None, ev @ [Handled (ReceiptHandle message) (Parsed arg) False]))"

text \<open>
  The body of the \<^verbatim>\<open>for\<close> loop in notification's \<^verbatim>\<open>main\<close>. On the
  direct path the body is parsed a second time and the result goes to the handler.
\<close>

definition notify_handle_message :: "env \<Rightarrow> nat \<Rightarrow> message \<Rightarrow> exn option \<times> event list" where
  "notify_handle_message env n message =
     (let received = [Print (Received_message n)] in
      case loads env (Body message) of
        Inl e \<Rightarrow> (Some e, received)
      | Inr body \<Rightarrow>
          (case py_in ''Message'' body of
             Inl e \<Rightarrow> (Some e, received)
           | Inr wrapped \<Rightarrow>
               if wrapped then
                 (case py_getitem body ''Message'' of
                    Inl e \<Rightarrow> (Some e, received)
                  | Inr sns_message \<Rightarrow>
                      (case second_parse env sns_message of
                         Inl e \<Rightarrow> (Some e, received)
                       | Inr sns_message' \<Rightarrow>
                           (case notify_dispatch env message sns_message' of
                              (r, ev) \<Rightarrow> (r, received @ ev))))
               else
                 (case loads env (Body message) of
                    Inl e \<Rightarrow> (Some e, received)
                  | Inr order \<Rightarrow>
                      (case notify_dispatch env message order of
                         (r, ev) \<Rightarrow> (r, received @ ev)))))"

definition notification_main ::
  "env \<Rightarrow> (exn + message list option) list \<Rightarrow> status \<times> nat \<times> event list" where
  "notification_main env script = consumer_loop (notify_handle_message env) 0 script"

section \<open>producer/app.py\<close>

text \<open>
  The order templates of \<^verbatim>\<open>main\<close>. The totals are float literals; a finite
  float is a rational number and Python compares a float with the int 500 exactly, so
  the totals are rationals here.
\<close>

record order_template =
  tpl_customer_id :: string
  tpl_items :: "string list"
  tpl_total :: rat

definition order_templates :: "order_template list" where
  "order_templates =
     [\<lparr>tpl_customer_id = ''CUST-001'', tpl_items = [''Laptop'', ''Mouse''], tpl_total = 1200\<rparr>,
      \<lparr>tpl_customer_id = ''CUST-002'', tpl_items = [''Keyboard'', ''Monitor''], tpl_total = 450\<rparr>,
      \<lparr>tpl_customer_id = ''CUST-001'', tpl_items = [''Headphones''], tpl_total = 150\<rparr>,
      \<lparr>tpl_customer_id = ''CUST-003'', tpl_items = [''Webcam'', ''Microphone''], tpl_total = 200\<rparr>,
      \<lparr>tpl_customer_id = ''CUST-002'', tpl_items = [''USB-C Hub''], tpl_total = 75\<rparr>]"

definition create_order_message :: "string \<Rightarrow> string \<Rightarrow> string \<Rightarrow> string list \<Rightarrow> rat \<Rightarrow> json" where
  "create_order_message now order_id customer_id items total_amount =
     JObj [(''order_id'', JStr order_id),
           (''customer_id'', JStr customer_id),
           (''items'', JArr (map JStr items)),
           (''total_amount'', JFloat (Finite total_amount)),
           (''timestamp'', JStr now),
           (''status'', JStr ''pending'')]"

text \<open>The attributes that \<^verbatim>\<open>main\<close> attaches to an order with the given total.\<close>

definition message_attributes :: "rat \<Rightarrow> (string \<times> (string \<times> string) list) list" where
  "message_attributes total_amount =
     [(''order_type'', [(''DataType'', ''String''), (''StringValue'', ''standard'')]),
      (''priority'', [(''DataType'', ''String''),
                      (''StringValue'', if total_amount < 500 then ''normal'' else ''high'')])]"

definition publish_message :: "exn + string \<Rightarrow> (exn + string option) \<times> event list" where
  "publish_message sdk =
     (case sdk of
        Inr message_id \<Rightarrow> (Inr (Some message_id), [Inc Published, Observe])
      | Inl e \<Rightarrow>
          if e = ClientError then (Inr None, [Inc Publish_failed, Observe])
          else (Inl e, [Observe]))"

text \<open>
  One turn of the producer's loop, up to the publish call: the template is chosen by
  \<open>(order_counter - 1) % len(order_templates)\<close>, which is never negative and
  below the length, so the index is in range. The result is the message and its
  attributes.
\<close>

definition produce ::
  "string \<Rightarrow> string \<Rightarrow> int \<Rightarrow> json \<times> (string \<times> (string \<times> string) list) list" where
  "produce now order_id order_counter =
     (let order_template =
        order_templates ! nat ((order_counter - 1) mod int (length order_templates))
      in (create_order_message now order_id (tpl_customer_id order_template)
            (tpl_items order_template) (tpl_total order_template),
          message_attributes (tpl_total order_template)))"

text \<open>The value of the \<open>priority\<close> attribute among a message's attributes.\<close>

definition priority_of :: "(string \<times> (string \<times> string) list) list \<Rightarrow> string option" where
  "priority_of attrs =
     (case map_of attrs ''priority'' of None \<Rightarrow> None | Some a \<Rightarrow> map_of a ''StringValue'')"

section \<open>Reading a trace\<close>

text \<open>
  What a trace says about a run: the receipt handles given to the SDK's delete call, the
  handles whose handler returned success and those whose handler returned failure (each
  in the order of the events), the arguments that the handler was given, the value of a
  counter, the number of samples in the histogram and the lines printed.
\<close>

definition deleted_handles :: "event list \<Rightarrow> string list" where
  "deleted_handles ev = concat (map (\<lambda>e. case e of Sqs_delete h \<Rightarrow> [h] | _ \<Rightarrow> []) ev)"

definition succeeded_handles :: "event list \<Rightarrow> string list" where
  "succeeded_handles ev =
     concat (map (\<lambda>e. case e of Handled h a ok \<Rightarrow> (if ok then [h] else []) | _ \<Rightarrow> []) ev)"

definition failed_handles :: "event list \<Rightarrow> string list" where
  "failed_handles ev =
     concat (map (\<lambda>e. case e of Handled h a ok \<Rightarrow> (if ok then [] else [h]) | _ \<Rightarrow> []) ev)"

definition handler_args :: "event list \<Rightarrow> harg list" where
  "handler_args ev = concat (map (\<lambda>e. case e of Handled h a ok \<Rightarrow> [a] | _ \<Rightarrow> []) ev)"

definition counted :: "counter \<Rightarrow> event list \<Rightarrow> nat" where
  "counted c ev = count_list ev (Inc c)"

definition observed :: "event list \<Rightarrow> nat" where
  "observed ev = count_list ev Observe"

definition printed :: "event list \<Rightarrow> line list" where
  "printed ev = concat (map (\<lambda>e. case e of Print l \<Rightarrow> [l] | _ \<Rightarrow> []) ev)"

text \<open>
  The counters agree with the handlers' results in a trace: as many increments of
  \<open>processed\<close> as successes, as many of \<open>failed\<close> as failures, a sample in the
  histogram for each of them at least, and no more samples than messages received.
\<close>

definition balanced :: "event list \<Rightarrow> bool" where
  "balanced ev =
     (counted Processed ev = length (succeeded_handles ev)
      \<and> counted Failed ev = length (failed_handles ev)
      \<and> length (succeeded_handles ev) + length (failed_handles ev) \<le> observed ev
      \<and> observed ev \<le> counted Received ev)"

section \<open>What the handler returned for a message\<close>

text \<open>
  The statements of the loop body before the handler, alone: what they hand to
  \<^verbatim>\<open>process_order\<close> (a text) and to \<^verbatim>\<open>send_notification\<close> (a parsed
  value), or the exception they raise.
\<close>

definition order_decode :: "env \<Rightarrow> message \<Rightarrow> exn + string" where
  "order_decode env message =
     and_then (loads env (Body message)) (\<lambda>body.
     and_then (py_in ''Message'' body) (\<lambda>wrapped.
       if wrapped then
         and_then (py_getitem body ''Message'') (\<lambda>sns_message.
         and_then (second_parse env sns_message) (\<lambda>sns_message'.
         Inr (dumps env sns_message')))
       else Inr (Body message)))"

definition notify_decode :: "env \<Rightarrow> message \<Rightarrow> exn + json" where
  "notify_decode env message =
     and_then (loads env (Body message)) (\<lambda>body.
     and_then (py_in ''Message'' body) (\<lambda>wrapped.
       if wrapped then
         and_then (py_getitem body ''Message'') (\<lambda>sns_message.
         second_parse env sns_message)
       else loads env (Body message)))"

text \<open>
  The value that the handler returns for the n-th message: \<open>None\<close> when the handler
  is not reached or does not return.
\<close>

definition order_returned :: "env \<Rightarrow> nat \<Rightarrow> message \<Rightarrow> bool option" where
  "order_returned env n message =
     (case order_decode env message of
        Inl e \<Rightarrow> None
      | Inr arg \<Rightarrow>
          (case fst (process_order env (utcnow env n) arg) of
             Inl e \<Rightarrow> None
           | Inr ok \<Rightarrow> Some ok))"

definition notify_returned :: "env \<Rightarrow> message \<Rightarrow> bool option" where
  "notify_returned env message =
     (case notify_decode env message of
        Inl e \<Rightarrow> None
      | Inr arg \<Rightarrow>
          (case fst (send_notification env arg) of
             Inl e \<Rightarrow> None
           | Inr ok \<Rightarrow> Some ok))"

text \<open>
  The messages that a run has pulled from the queue, each with the value of
  \<open>message_count\<close> at its turn: those of every poll, up to and including the
  message, if any, at which an exception leaves the loop.
\<close>

fun for_reached ::
  "(nat \<Rightarrow> message \<Rightarrow> exn option \<times> event list) \<Rightarrow> nat \<Rightarrow> message list
     \<Rightarrow> (nat \<times> message) list" where
  "for_reached handle message_count [] = []"
| "for_reached handle message_count (m # ms) =
     (Suc message_count, m) #
       (case fst (handle (Suc message_count) m) of
          None \<Rightarrow> for_reached handle (Suc message_count) ms
        | Some e \<Rightarrow> [])"

fun loop_reached ::
  "(nat \<Rightarrow> message \<Rightarrow> exn option \<times> event list) \<Rightarrow> nat \<Rightarrow> (exn + message list option) list
     \<Rightarrow> (nat \<times> message) list" where
  "loop_reached handle message_count [] = []"
| "loop_reached handle message_count (sdk # script) =
     (case fst (receive_messages sdk) of
        Inl e \<Rightarrow> []
      | Inr messages \<Rightarrow>
          for_reached handle message_count messages @
            (case for_messages handle message_count messages of
               (None, message_count', ev) \<Rightarrow> loop_reached handle message_count' script
             | (Some e, message_count', ev) \<Rightarrow> []))"

section \<open>Sample documents\<close>

text \<open>
  The order of the specification's end-to-end scenario as the producer builds it and as
  \<^verbatim>\<open>json.dumps\<close> writes it; the same order as \<^verbatim>\<open>process_order\<close>
  leaves it five seconds later; an order whose \<open>order_id\<close> is the lone
  surrogate U+D800, for which \<open>CHR 0xFF\<close> stands and which the JSON text writes as
  an escape; a document that lacks most of the order's fields; and the envelope that the
  topic puts around each, with the inner text as the str under \<open>Message\<close>, its
  quotes and backslashes escaped.
\<close>

definition sample_order :: json where
  "sample_order =
     create_order_message ''2024-05-01T10:00:00+00:00'' ''ORD-001'' ''CUST-001''
       [''Laptop'', ''Mouse''] 1200"

definition sample_order_text :: string where
  \<open>sample_order_text =
     ''{"order_id": "ORD-001", "customer_id": "CUST-001", "items": ["Laptop", "Mouse"], "total_amount": 1200.0, "timestamp": "2024-05-01T10:00:00+00:00", "status": "pending"}''\<close>

definition sample_processed :: json where
  "sample_processed =
     JObj [(''order_id'', JStr ''ORD-001''),
           (''customer_id'', JStr ''CUST-001''),
           (''items'', JArr [JStr ''Laptop'', JStr ''Mouse'']),
           (''total_amount'', JFloat (Finite 1200)),
           (''timestamp'', JStr ''2024-05-01T10:00:00+00:00''),
           (''status'', JStr ''processing''),
           (''processed_at'', JStr ''2024-05-01T10:00:05+00:00'')]"

definition sample_processed_text :: string where
  \<open>sample_processed_text =
     ''{"order_id": "ORD-001", "customer_id": "CUST-001", "items": ["Laptop", "Mouse"], "total_amount": 1200.0, "timestamp": "2024-05-01T10:00:00+00:00", "status": "processing", "processed_at": "2024-05-01T10:00:05+00:00"}''\<close>

definition sample_surrogate :: json where
  "sample_surrogate =
     create_order_message ''2024-05-01T10:00:00+00:00'' [CHR 0xFF] ''CUST-009''
       [''Laptop'', ''Mouse''] 1200"

definition sample_surrogate_text :: string where
  \<open>sample_surrogate_text =
     ''{"order_id": "'' @ [CHR 0x5C] @ ''ud800", "customer_id": "CUST-009", "items": ["Laptop", "Mouse"], "total_amount": 1200.0, "timestamp": "2024-05-01T10:00:00+00:00", "status": "pending"}''\<close>

definition sample_incomplete :: json where
  "sample_incomplete = JObj [(''order_id'', JStr ''ORD-002'')]"

definition sample_incomplete_text :: string where
  \<open>sample_incomplete_text = ''{"order_id": "ORD-002"}''\<close>

definition json_escape :: "string \<Rightarrow> string" where
  "json_escape s =
     concat (map (\<lambda>c. if c = CHR 0x22 \<or> c = CHR 0x5C then [CHR 0x5C, c] else [c]) s)"

definition envelope :: "string \<Rightarrow> json" where
  "envelope t = JObj [(''Type'', JStr ''Notification''), (''Message'', JStr t)]"

definition envelope_text :: "string \<Rightarrow> string" where
  \<open>envelope_text t = ''{"Type": "Notification", "Message": "'' @ json_escape t @ ''"}''\<close>

text \<open>
  The libraries, cut down to the sample documents: \<open>sample_loads\<close> reads the seven
  texts as \<^verbatim>\<open>json.loads\<close> does and refuses the text \<open>not json\<close>;
  \<open>sample_dumps\<close> writes the three payloads as \<^verbatim>\<open>json.dumps\<close> does
  (no other value is serialised in the samples, and the text of None stands for the
  rest); every str that the samples print is a str value, so \<open>sample_repr\<close> is
  never read; and standard output is a UTF-8 stream, which refuses the surrogate.
\<close>

definition sample_loads :: "string \<Rightarrow> exn + json" where
  "sample_loads s =
     (if s = sample_order_text then Inr sample_order
      else if s = sample_processed_text then Inr sample_processed
      else if s = sample_surrogate_text then Inr sample_surrogate
      else if s = sample_incomplete_text then Inr sample_incomplete
      else if s = envelope_text sample_order_text then Inr (envelope sample_order_text)
      else if s = envelope_text sample_surrogate_text then Inr (envelope sample_surrogate_text)
      else if s = envelope_text sample_incomplete_text then Inr (envelope sample_incomplete_text)
      else if s = ''null'' then Inr JNull
      else Inl JSONDecodeError)"

definition sample_dumps :: "json \<Rightarrow> string" where
  "sample_dumps v =
     (if v = sample_order then sample_order_text
      else if v = sample_surrogate then sample_surrogate_text
      else if v = sample_incomplete then sample_incomplete_text
      else ''null'')"

definition sample_repr :: "json \<Rightarrow> string" where
  "sample_repr v = ''None''"

definition sample_encodable :: "string \<Rightarrow> bool" where
  "sample_encodable s = list_all (\<lambda>c. c \<noteq> CHR 0xFF) s"

definition sample_env :: env where
  "sample_env =
     \<lparr>loads = sample_loads, dumps = sample_dumps, py_repr = sample_repr,
      encodable = sample_encodable, sqs_delete = (\<lambda>h. None),
      utcnow = (\<lambda>n. ''2024-05-01T10:00:05+00:00'')\<rparr>"

definition wrapped_message :: message where
  "wrapped_message = \<lparr>Body = envelope_text sample_order_text, ReceiptHandle = ''rh-1''\<rparr>"

definition direct_message :: message where
  "direct_message = \<lparr>Body = sample_order_text, ReceiptHandle = ''rh-2''\<rparr>"

definition incomplete_message :: message where
  "incomplete_message = \<lparr>Body = sample_incomplete_text, ReceiptHandle = ''rh-3''\<rparr>"

definition poison_message :: message where
  "poison_message = \<lparr>Body = ''not json'', ReceiptHandle = ''rh-4''\<rparr>"

definition wrapped_incomplete_message :: message where
  "wrapped_incomplete_message =
     \<lparr>Body = envelope_text sample_incomplete_text, ReceiptHandle = ''rh-5''\<rparr>"

definition wrapped_surrogate_message :: message where
  "wrapped_surrogate_message =
     \<lparr>Body = envelope_text sample_surrogate_text, ReceiptHandle = ''rh-6''\<rparr>"

section \<open>Traces of the handlers and of the loops\<close>

lemma deleted_handles_append: "deleted_handles (xs @ ys) = deleted_handles xs @ deleted_handles ys"
  by (simp add: deleted_handles_def)

lemma succeeded_handles_append:
  "succeeded_handles (xs @ ys) = succeeded_handles xs @ succeeded_handles ys"
  by (simp add: succeeded_handles_def)

lemma failed_handles_append: "failed_handles (xs @ ys) = failed_handles xs @ failed_handles ys"
  by (simp add: failed_handles_def)

lemma handler_args_append: "handler_args (xs @ ys) = handler_args xs @ handler_args ys"
  by (simp add: handler_args_def)

lemma counted_append: "counted c (xs @ ys) = counted c xs + counted c ys"
  by (simp add: counted_def)

lemma observed_append: "observed (xs @ ys) = observed xs + observed ys"
  by (simp add: observed_def)

lemma deleted_handles_Cons:
  "deleted_handles [] = []"
  "deleted_handles (Print l # ev) = deleted_handles ev"
  "deleted_handles (Inc c # ev) = deleted_handles ev"
  "deleted_handles (Observe # ev) = deleted_handles ev"
  "deleted_handles (Sqs_delete h # ev) = h # deleted_handles ev"
  "deleted_handles (Handled h a ok # ev) = deleted_handles ev"
  by (simp_all add: deleted_handles_def)

lemma succeeded_handles_Cons:
  "succeeded_handles [] = []"
  "succeeded_handles (Print l # ev) = succeeded_handles ev"
  "succeeded_handles (Inc c # ev) = succeeded_handles ev"
  "succeeded_handles (Observe # ev) = succeeded_handles ev"
  "succeeded_handles (Sqs_delete h # ev) = succeeded_handles ev"
  "succeeded_handles (Handled h a ok # ev)
     = (if ok then h # succeeded_handles ev else succeeded_handles ev)"
  by (simp_all add: succeeded_handles_def)

lemma failed_handles_Cons:
  "failed_handles [] = []"
  "failed_handles (Print l # ev) = failed_handles ev"
  "failed_handles (Inc c # ev) = failed_handles ev"
  "failed_handles (Observe # ev) = failed_handles ev"
  "failed_handles (Sqs_delete h # ev) = failed_handles ev"
  "failed_handles (Handled h a ok # ev) = (if ok then failed_handles ev else h # failed_handles ev)"
  by (simp_all add: failed_handles_def)

lemma handler_args_Cons:
  "handler_args [] = []"
  "handler_args (Print l # ev) = handler_args ev"
  "handler_args (Inc c # ev) = handler_args ev"
  "handler_args (Observe # ev) = handler_args ev"
  "handler_args (Sqs_delete h # ev) = handler_args ev"
  "handler_args (Handled h a ok # ev) = a # handler_args ev"
  by (simp_all add: handler_args_def)

lemma counted_Cons:
  "counted c [] = 0"
  "counted c (Print l # ev) = counted c ev"
  "counted c (Inc c' # ev) = (if c' = c then Suc (counted c ev) else counted c ev)"
  "counted c (Observe # ev) = counted c ev"
  "counted c (Sqs_delete h # ev) = counted c ev"
  "counted c (Handled h a ok # ev) = counted c ev"
  by (simp_all add: counted_def)

lemma observed_Cons:
  "observed [] = 0"
  "observed (Print l # ev) = observed ev"
  "observed (Inc c # ev) = observed ev"
  "observed (Observe # ev) = Suc (observed ev)"
  "observed (Sqs_delete h # ev) = observed ev"
  "observed (Handled h a ok # ev) = observed ev"
  by (simp_all add: observed_def)

lemmas trace_Cons = deleted_handles_Cons succeeded_handles_Cons failed_handles_Cons
  handler_args_Cons counted_Cons observed_Cons

lemmas trace_append = deleted_handles_append succeeded_handles_append failed_handles_append
  handler_args_append counted_append observed_append

lemma process_order_cases:
  "(\<exists>order. process_order env now b
        = (Inr True, Some order, [Print Order_now_processed, Inc Processed, Observe]))
   \<or> process_order env now b = (Inr False, None, [Print Error_parsing, Inc Failed, Observe])
   \<or> process_order env now b = (Inr False, None, [Print Error_processing, Inc Failed, Observe])
   \<or> (\<exists>e. process_order env now b = (Inl e, None, [Observe]))"
  by (simp add: process_order_def split: sum.splits)

lemma delete_message_cases:
  "(\<exists>r. delete_message env h = (r, [Sqs_delete h]))
   \<or> delete_message env h = (Inr False, [Sqs_delete h, Print Error_deleting])"
  by (simp add: delete_message_def split: option.splits)

lemma send_notification_cases:
  "send_notification env v = (Inr True, [Print Notification_sent])
   \<or> send_notification env v = (Inr False, [Print Error_sending])
   \<or> (\<exists>e. send_notification env v = (Inl e, []))"
  by (simp add: send_notification_def split: sum.splits)

lemma field_errors:
  "py_getitem v k = Inl e \<Longrightarrow> e = KeyError \<or> e = TypeError"
  "py_setitem v k x = Inl e \<Longrightarrow> e = TypeError"
  "py_join sep v = Inl e \<Longrightarrow> e = TypeError"
  "py_format_2f v = Inl e \<Longrightarrow> e = TypeError \<or> e = ValueError \<or> e = OverflowError"
  "py_print env t = Inl e \<Longrightarrow> e = UnicodeEncodeError"
  by (auto simp: py_getitem_def py_setitem_def py_join_def py_format_2f_def py_print_def
           split: json.splits option.splits if_splits)

lemma order_transition_errors:
  assumes "order_transition env now v = Inl e"
  shows "e = KeyError \<or> e = TypeError \<or> e = ValueError \<or> e = OverflowError
         \<or> e = UnicodeEncodeError"
  using assms unfolding order_transition_def and_then_def
  by (auto split: sum.splits dest: field_errors)

lemma process_order_parsed:
  assumes "loads env arg = Inr v"
  shows "process_order env now arg
           = (case order_transition env now v of
                Inr order \<Rightarrow>
                  (Inr True, Some order, [Print Order_now_processed, Inc Processed, Observe])
              | Inl e \<Rightarrow> (Inr False, None, [Print Error_processing, Inc Failed, Observe]))"
proof (cases "order_transition env now v")
  case (Inr order)
  then show ?thesis by (simp add: process_order_def and_then_def assms)
next
  case (Inl e)
  from order_transition_errors[OF Inl] Inl show ?thesis
    by (auto simp: process_order_def and_then_def assms is_Exception_def)
qed

lemma send_notification_returns:
  "send_notification env v = (Inr True, [Print Notification_sent])
   \<or> send_notification env v = (Inr False, [Print Error_sending])"
proof -
  have "is_Exception e"
    if "and_then (py_getitem v ''customer_id'') (\<lambda>customer_id.
           and_then (py_getitem v ''order_id'') (\<lambda>order_id.
           and_then (py_getitem v ''total_amount'') (\<lambda>amount.
           and_then (py_print env (py_str env customer_id)) (\<lambda>_.
           and_then (py_print env (py_str env order_id)) (\<lambda>_.
           and_then (py_format_2f amount) (\<lambda>_.
           and_then (py_getitem v ''items'') (\<lambda>items.
           and_then (py_join '', '' items) (\<lambda>joined.
           and_then (py_print env joined) (\<lambda>_.
           and_then (py_format_2f amount) (\<lambda>_.
           Inr ())))))))))) = Inl e" for e
    using that unfolding and_then_def is_Exception_def
    by (auto split: sum.splits dest: field_errors)
  then show ?thesis
    by (auto simp: send_notification_def split: sum.splits)
qed

lemma order_handle_message_decode:
  "order_handle_message env n m
     = (case order_decode env m of
          Inl e \<Rightarrow> (Some e, [Inc Received, Print (Received_message n)])
        | Inr arg \<Rightarrow>
            (case order_dispatch env n m arg of
               (r, ev) \<Rightarrow> (r, [Inc Received, Print (Received_message n)] @ ev)))"
  by (simp add: order_handle_message_def order_decode_def Let_def and_then_def
           split: sum.splits)

lemma notify_handle_message_decode:
  "notify_handle_message env n m
     = (case notify_decode env m of
          Inl e \<Rightarrow> (Some e, [Print (Received_message n)])
        | Inr arg \<Rightarrow>
            (case notify_dispatch env m arg of
               (r, ev) \<Rightarrow> (r, [Print (Received_message n)] @ ev)))"
  by (simp add: notify_handle_message_def notify_decode_def Let_def and_then_def
           split: sum.splits)

lemma order_dispatch_deleted:
  "deleted_handles (snd (order_dispatch env n m arg))
     = (if fst (process_order env (utcnow env n) arg) = Inr True then [ReceiptHandle m] else [])"
  using process_order_cases[of env "utcnow env n" arg] delete_message_cases[of env "ReceiptHandle m"]
  by (auto simp: order_dispatch_def trace_Cons split: sum.splits)

lemma notify_dispatch_deleted:
  "deleted_handles (snd (notify_dispatch env m arg))
     = (if fst (send_notification env arg) = Inr True then [ReceiptHandle m] else [])"
  using send_notification_cases[of env arg] delete_message_cases[of env "ReceiptHandle m"]
  by (auto simp: notify_dispatch_def trace_Cons split: sum.splits)

lemma order_handle_message_deleted:
  "deleted_handles (snd (order_handle_message env n m))
     = (if order_returned env n m = Some True then [ReceiptHandle m] else [])"
proof (cases "order_decode env m")
  case (Inl e)
  then show ?thesis
    by (simp add: order_handle_message_decode order_returned_def trace_Cons)
next
  case (Inr arg)
  obtain r ev where d: "order_dispatch env n m arg = (r, ev)"
    by (cases "order_dispatch env n m arg")
  have "deleted_handles ev
          = (if fst (process_order env (utcnow env n) arg) = Inr True then [ReceiptHandle m] else [])"
    using order_dispatch_deleted[of env n m arg] d by simp
  then show ?thesis
    by (auto simp: order_handle_message_decode order_returned_def Inr d trace_Cons
             split: sum.splits)
qed

lemma notify_handle_message_deleted:
  "deleted_handles (snd (notify_handle_message env n m))
     = (if notify_returned env m = Some True then [ReceiptHandle m] else [])"
proof (cases "notify_decode env m")
  case (Inl e)
  then show ?thesis
    by (simp add: notify_handle_message_decode notify_returned_def trace_Cons)
next
  case (Inr arg)
  obtain r ev where d: "notify_dispatch env m arg = (r, ev)"
    by (cases "notify_dispatch env m arg")
  have "deleted_handles ev
          = (if fst (send_notification env arg) = Inr True then [ReceiptHandle m] else [])"
    using notify_dispatch_deleted[of env m arg] d by simp
  then show ?thesis
    by (auto simp: notify_handle_message_decode notify_returned_def Inr d trace_Cons
             split: sum.splits)
qed

lemma receive_messages_events:
  "snd (receive_messages sdk) = [] \<or> snd (receive_messages sdk) = [Print Error_receiving]"
  by (simp add: receive_messages_def split: sum.splits)

lemma for_messages_deleted:
  assumes body: "\<And>n m. deleted_handles (snd (handle n m)) = (if ok n m then [ReceiptHandle m] else [])"
  shows "deleted_handles (snd (snd (for_messages handle c ms)))
           = map (ReceiptHandle \<circ> snd) (filter (\<lambda>(n, m). ok n m) (for_reached handle c ms))"
proof (induction ms arbitrary: c)
  case Nil
  show ?case by (simp add: trace_Cons)
next
  case (Cons m ms)
  obtain r ev where h: "handle (Suc c) m = (r, ev)" by (cases "handle (Suc c) m")
  have ev: "deleted_handles ev = (if ok (Suc c) m then [ReceiptHandle m] else [])"
    using body[of "Suc c" m] h by simp
  obtain r' c' ev' where f: "for_messages handle (Suc c) ms = (r', c', ev')"
    by (cases "for_messages handle (Suc c) ms")
  have ev': "deleted_handles ev'
      = map (ReceiptHandle \<circ> snd) (filter (\<lambda>(n, m). ok n m) (for_reached handle (Suc c) ms))"
    using Cons.IH[of "Suc c"] f by simp
  show ?case
    by (cases r) (simp_all add: h f ev ev' trace_append)
qed

lemma consumer_loop_deleted:
  assumes body: "\<And>n m. deleted_handles (snd (handle n m)) = (if ok n m then [ReceiptHandle m] else [])"
  shows "deleted_handles (snd (snd (consumer_loop handle c script)))
           = map (ReceiptHandle \<circ> snd) (filter (\<lambda>(n, m). ok n m) (loop_reached handle c script))"
proof (induction script arbitrary: c)
  case Nil
  show ?case by (simp add: trace_Cons)
next
  case (Cons sdk script)
  obtain r ev where rm: "receive_messages sdk = (r, ev)" by (cases "receive_messages sdk")
  have ev: "deleted_handles ev = []"
    using receive_messages_events[of sdk] rm by (auto simp: trace_Cons)
  have leave: "deleted_handles (snd (snd (leave_loop e k tr))) = deleted_handles tr" for e k tr
    by (simp add: leave_loop_def trace_append trace_Cons)
  show ?case
  proof (cases r)
    case (Inl e)
    then show ?thesis using leave[of e c ev] by (simp add: rm ev)
  next
    case (Inr messages)
    obtain r' c' ev' where f: "for_messages handle c messages = (r', c', ev')"
      by (cases "for_messages handle c messages")
    have ev': "deleted_handles ev'
        = map (ReceiptHandle \<circ> snd) (filter (\<lambda>(n, m). ok n m) (for_reached handle c messages))"
      using for_messages_deleted[of handle ok c messages, OF body] f by simp
    show ?thesis
    proof (cases "messages = []")
      case True
      obtain st k tr where l: "consumer_loop handle c script = (st, k, tr)"
        by (cases "consumer_loop handle c script")
      have "deleted_handles tr
          = map (ReceiptHandle \<circ> snd) (filter (\<lambda>(n, m). ok n m) (loop_reached handle c script))"
        using Cons.IH[of c] l by simp
      then show ?thesis
        by (simp add: rm Inr True l ev trace_append trace_Cons)
    next
      case False
      show ?thesis
      proof (cases r')
        case None
        obtain st k tr where l: "consumer_loop handle c' script = (st, k, tr)"
          by (cases "consumer_loop handle c' script")
        have "deleted_handles tr
            = map (ReceiptHandle \<circ> snd) (filter (\<lambda>(n, m). ok n m) (loop_reached handle c' script))"
          using Cons.IH[of c'] l by simp
        then show ?thesis
          by (simp add: rm Inr False f None l ev ev' trace_append)
      next
        case (Some e)
        then show ?thesis
          using leave[of e c' "ev @ ev'"] by (simp add: rm Inr False f ev ev' trace_append)
      qed
    qed
  qed
qed

section \<open>Acknowledgement\<close>

text \<open>
  C1. In both consumers the loop body gives a message's receipt handle to the delete
  call exactly when the handler has returned success for that message, and then once; it
  makes no delete call when the handler has returned failure, has raised or was not
  reached. Over a whole run, the delete calls are those of the messages pulled for which
  the handler returned success, in the order of the messages.
\<close>

theorem delete_iff_handler_success:
  "deleted_handles (snd (order_handle_message env n m))
     = (if order_returned env n m = Some True then [ReceiptHandle m] else [])
   \<and> deleted_handles (snd (notify_handle_message env n m))
     = (if notify_returned env m = Some True then [ReceiptHandle m] else [])
   \<and> deleted_handles (snd (snd (order_processing_main env script)))
     = map (ReceiptHandle \<circ> snd)
         (filter (\<lambda>(n, m). order_returned env n m = Some True)
            (loop_reached (order_handle_message env) 0 script))
   \<and> deleted_handles (snd (snd (notification_main env script)))
     = map (ReceiptHandle \<circ> snd)
         (filter (\<lambda>(n, m). notify_returned env m = Some True)
            (loop_reached (notify_handle_message env) 0 script))"
  using order_handle_message_deleted[of env n m] notify_handle_message_deleted[of env n m]
    consumer_loop_deleted[of "order_handle_message env"
      "\<lambda>n m. order_returned env n m = Some True" 0 script, OF order_handle_message_deleted]
    consumer_loop_deleted[of "notify_handle_message env"
      "\<lambda>n m. notify_returned env m = Some True" 0 script, OF notify_handle_message_deleted]
  by (simp add: order_processing_main_def notification_main_def)

section \<open>The sample documents at work\<close>

lemmas sample_text_defs = sample_order_text_def sample_processed_text_def
  sample_surrogate_text_def
  sample_incomplete_text_def envelope_text_def json_escape_def

lemma sample_loads_simps:
  "sample_loads sample_order_text = Inr sample_order"
  "sample_loads sample_processed_text = Inr sample_processed"
  "sample_loads sample_surrogate_text = Inr sample_surrogate"
  "sample_loads sample_incomplete_text = Inr sample_incomplete"
  "sample_loads (envelope_text sample_order_text) = Inr (envelope sample_order_text)"
  "sample_loads (envelope_text sample_surrogate_text) = Inr (envelope sample_surrogate_text)"
  "sample_loads (envelope_text sample_incomplete_text) = Inr (envelope sample_incomplete_text)"
  "sample_loads ''not json'' = Inl JSONDecodeError"
  by (simp_all add: sample_loads_def sample_text_defs)

lemma sample_dumps_simps:
  "sample_dumps sample_order = sample_order_text"
  "sample_dumps sample_surrogate = sample_surrogate_text"
  "sample_dumps sample_incomplete = sample_incomplete_text"
  by (simp_all add: sample_dumps_def sample_order_def sample_surrogate_def sample_incomplete_def
        create_order_message_def)

lemma sample_env_simps:
  "loads sample_env = sample_loads" "dumps sample_env = sample_dumps"
  "py_repr sample_env = sample_repr" "encodable sample_env = sample_encodable"
  "sqs_delete sample_env h = None" "utcnow sample_env n = ''2024-05-01T10:00:05+00:00''"
  by (simp_all add: sample_env_def)

lemma order_transition_sample:
  "order_transition sample_env now sample_order =
     Inr (JObj [(''order_id'', JStr ''ORD-001''), (''customer_id'', JStr ''CUST-001''),
           (''items'', JArr [JStr ''Laptop'', JStr ''Mouse'']),
           (''total_amount'', JFloat (Finite 1200)),
           (''timestamp'', JStr ''2024-05-01T10:00:00+00:00''),
           (''status'', JStr ''processing''), (''processed_at'', JStr now)])"
  by (simp add: order_transition_def sample_order_def create_order_message_def and_then_def
        py_getitem_def py_setitem_def py_join_def py_format_2f_def py_print_def py_str_def
        sample_env_simps sample_encodable_def)

lemma order_transition_incomplete:
  "order_transition sample_env now sample_incomplete = Inl KeyError"
  by (simp add: order_transition_def sample_incomplete_def and_then_def py_getitem_def
        py_print_def py_str_def sample_env_simps sample_encodable_def)

lemma order_transition_surrogate:
  "order_transition sample_env now sample_surrogate = Inl UnicodeEncodeError"
  by (simp add: order_transition_def sample_surrogate_def create_order_message_def and_then_def
        py_getitem_def py_print_def py_str_def sample_env_simps sample_encodable_def)

lemma process_order_sample:
  "process_order sample_env now sample_order_text
     = (Inr True,
        Some (JObj [(''order_id'', JStr ''ORD-001''), (''customer_id'', JStr ''CUST-001''),
           (''items'', JArr [JStr ''Laptop'', JStr ''Mouse'']),
           (''total_amount'', JFloat (Finite 1200)),
           (''timestamp'', JStr ''2024-05-01T10:00:00+00:00''),
           (''status'', JStr ''processing''), (''processed_at'', JStr now)]),
        [Print Order_now_processed, Inc Processed, Observe])"
  by (simp add: process_order_def sample_env_simps sample_loads_simps and_then_def
        order_transition_sample)

lemma process_order_incomplete:
  "process_order sample_env now sample_incomplete_text
     = (Inr False, None, [Print Error_processing, Inc Failed, Observe])"
  by (simp add: process_order_def sample_env_simps sample_loads_simps and_then_def
        order_transition_incomplete is_Exception_def)

lemma process_order_surrogate:
  "process_order sample_env now sample_surrogate_text
     = (Inr False, None, [Print Error_processing, Inc Failed, Observe])"
  by (simp add: process_order_def sample_env_simps sample_loads_simps and_then_def
        order_transition_surrogate is_Exception_def)

lemma send_notification_sample:
  "send_notification sample_env sample_order = (Inr True, [Print Notification_sent])"
  by (simp add: send_notification_def sample_order_def create_order_message_def and_then_def
        py_getitem_def py_join_def py_format_2f_def py_print_def py_str_def
        sample_env_simps sample_encodable_def)

lemma py_in_samples:
  "py_in ''Message'' (envelope t) = Inr True"
  "py_in ''Message'' sample_order = Inr False"
  "py_in ''Message'' sample_incomplete = Inr False"
  by (simp_all add: py_in_def envelope_def sample_order_def sample_incomplete_def
        create_order_message_def)

lemma py_getitem_envelope: "py_getitem (envelope t) ''Message'' = Inr (JStr t)"
  by (simp add: py_getitem_def envelope_def)

lemma second_parse_samples:
  "second_parse sample_env (JStr sample_order_text) = Inr sample_order"
  "second_parse sample_env (JStr sample_surrogate_text) = Inr sample_surrogate"
  "second_parse sample_env (JStr sample_incomplete_text) = Inr sample_incomplete"
  by (simp_all add: second_parse_def sample_env_simps sample_loads_simps)

lemma order_decode_samples:
  "order_decode sample_env wrapped_message = Inr sample_order_text"
  "order_decode sample_env wrapped_incomplete_message = Inr sample_incomplete_text"
  "order_decode sample_env wrapped_surrogate_message = Inr sample_surrogate_text"
  "order_decode sample_env direct_message = Inr sample_order_text"
  "order_decode sample_env incomplete_message = Inr sample_incomplete_text"
  "order_decode sample_env poison_message = Inl JSONDecodeError"
  by (simp_all add: order_decode_def and_then_def wrapped_message_def
        wrapped_incomplete_message_def wrapped_surrogate_message_def direct_message_def
        incomplete_message_def poison_message_def sample_env_simps sample_loads_simps
        py_in_samples py_getitem_envelope second_parse_samples sample_dumps_simps)

lemma notify_decode_samples:
  "notify_decode sample_env wrapped_message = Inr sample_order"
  "notify_decode sample_env direct_message = Inr sample_order"
  "notify_decode sample_env poison_message = Inl JSONDecodeError"
  by (simp_all add: notify_decode_def and_then_def wrapped_message_def direct_message_def
        poison_message_def sample_env_simps sample_loads_simps
        py_in_samples py_getitem_envelope second_parse_samples)

lemma sample_handles:
  "ReceiptHandle wrapped_message = ''rh-1''" "ReceiptHandle direct_message = ''rh-2''"
  "ReceiptHandle incomplete_message = ''rh-3''" "ReceiptHandle poison_message = ''rh-4''"
  "ReceiptHandle wrapped_incomplete_message = ''rh-5''"
  "ReceiptHandle wrapped_surrogate_message = ''rh-6''"
  by (simp_all add: wrapped_message_def direct_message_def incomplete_message_def
        poison_message_def wrapped_incomplete_message_def wrapped_surrogate_message_def)

lemma order_handle_wrapped:
  "order_handle_message sample_env n wrapped_message =
     (None, [Inc Received, Print (Received_message n), Print Order_now_processed, Inc Processed,
             Observe, Handled ''rh-1'' (Text sample_order_text) True, Sqs_delete ''rh-1'',
             Print Message_deleted])"
  by (simp add: order_handle_message_decode order_decode_samples order_dispatch_def
        sample_env_simps process_order_sample delete_message_def sample_handles)

lemma order_handle_incomplete:
  "order_handle_message sample_env n incomplete_message =
     (None, [Inc Received, Print (Received_message n), Print Error_processing, Inc Failed,
             Observe, Handled ''rh-3'' (Text sample_incomplete_text) False])"
  by (simp add: order_handle_message_decode order_decode_samples order_dispatch_def
        sample_env_simps process_order_incomplete sample_handles)

lemma order_handle_wrapped_incomplete:
  "order_handle_message sample_env n wrapped_incomplete_message =
     (None, [Inc Received, Print (Received_message n), Print Error_processing, Inc Failed,
             Observe, Handled ''rh-5'' (Text sample_incomplete_text) False])"
  by (simp add: order_handle_message_decode order_decode_samples order_dispatch_def
        sample_env_simps process_order_incomplete sample_handles)

lemma order_handle_wrapped_surrogate:
  "order_handle_message sample_env n wrapped_surrogate_message =
     (None, [Inc Received, Print (Received_message n), Print Error_processing, Inc Failed,
             Observe, Handled ''rh-6'' (Text sample_surrogate_text) False])"
  by (simp add: order_handle_message_decode order_decode_samples order_dispatch_def
        sample_env_simps process_order_surrogate sample_handles)

lemma order_handle_poison:
  "order_handle_message sample_env n poison_message =
     (Some JSONDecodeError, [Inc Received, Print (Received_message n)])"
  by (simp add: order_handle_message_decode order_decode_samples)

lemma notify_handle_poison:
  "notify_handle_message sample_env n poison_message =
     (Some JSONDecodeError, [Print (Received_message n)])"
  by (simp add: notify_handle_message_decode notify_decode_samples)

lemma notify_handle_wrapped:
  "notify_handle_message sample_env n wrapped_message =
     (None, [Print (Received_message n), Print Notification_sent,
             Handled ''rh-1'' (Parsed sample_order) True, Sqs_delete ''rh-1'',
             Print Message_deleted])"
  by (simp add: notify_handle_message_decode notify_decode_samples notify_dispatch_def
        sample_env_simps send_notification_sample delete_message_def sample_handles)

section \<open>Errors and the loop\<close>

text \<open>
  C3. The claim is that no error in receiving, decoding or handling one message ends the
  consumer loop. The loop parses the body before it calls the handler and outside any
  handler of exceptions, so a body that is not JSON raises JSONDecodeError out of
  \<^verbatim>\<open>main\<close>: in both consumers the run below ends at the first message and the
  second poll of the script is never made.
\<close>

theorem poison_message_ends_the_loop:
  "order_processing_main sample_env [Inr (Some [poison_message]), Inr (Some [wrapped_message])]
     = (Crashed JSONDecodeError, 1, [Inc Received, Print (Received_message 1)])
   \<and> notification_main sample_env [Inr (Some [poison_message]), Inr (Some [wrapped_message])]
     = (Crashed JSONDecodeError, 1, [Print (Received_message 1)])"
  by (simp add: order_processing_main_def notification_main_def receive_messages_def
        order_handle_poison notify_handle_poison leave_loop_def)

section \<open>The summary at the interrupt\<close>

text \<open>
  C5. The claim is that the count in the summary is the number of messages whose handling
  succeeded. \<open>message_count\<close> is incremented when a message is received: one message
  whose handler fails, followed by the interrupt, gives the summary 1 while no handler
  has succeeded.
\<close>

theorem summary_counts_failed_message:
  "order_processing_main sample_env [Inr (Some [incomplete_message]), Inl KeyboardInterrupt]
     = (Stopped, 1,
        [Inc Received, Print (Received_message 1), Print Error_processing, Inc Failed, Observe,
         Handled ''rh-3'' (Text sample_incomplete_text) False, Print (Summary 1)])
   \<and> succeeded_handles (snd (snd (order_processing_main sample_env
         [Inr (Some [incomplete_message]), Inl KeyboardInterrupt]))) = []"
  by (simp add: order_processing_main_def receive_messages_def order_handle_incomplete
        leave_loop_def succeeded_handles_def)

section \<open>Receiving\<close>

text \<open>
  C9, as the specification states it: \<^verbatim>\<open>receive_messages\<close> never raises to its
  caller. The interrupt that arrives during the long poll is not a \<open>ClientError\<close>;
  it passes through \<^verbatim>\<open>receive_messages\<close> to the handler of
  \<open>KeyboardInterrupt\<close> in \<^verbatim>\<open>main\<close>, which is how the loop is stopped.
\<close>

theorem receive_raises_the_interrupt:
  "fst (receive_messages (Inl KeyboardInterrupt)) = Inl KeyboardInterrupt"
  by (simp add: receive_messages_def)

text \<open>
  C9, amended: \<^verbatim>\<open>receive_messages\<close> returns the empty sequence and prints an
  error when the SDK raises \<open>ClientError\<close>; it returns the empty sequence, with no
  error, when the response has no messages; it returns the messages of a response that
  has some; and the interrupt is raised to the caller.
\<close>

theorem receive_messages_results:
  "receive_messages (Inl ClientError) = (Inr [], [Print Error_receiving])
   \<and> receive_messages (Inr None) = (Inr [], [])
   \<and> receive_messages (Inr (Some ms)) = (Inr ms, [])
   \<and> receive_messages (Inl KeyboardInterrupt) = (Inl KeyboardInterrupt, [])"
  by (simp add: receive_messages_def)

section \<open>The priority attribute\<close>

text \<open>
  C8. The producer sets the \<open>priority\<close> attribute to \<open>normal\<close> for every total
  below 500 and to \<open>high\<close> for 500 and above; in particular 499.99 gives
  \<open>normal\<close> and 500.00 gives \<open>high\<close>. With the templates of \<^verbatim>\<open>main\<close>,
  the orders with \<open>order_counter mod 5 = 1\<close> (total 1200) are the ones sent with
  \<open>high\<close>.
\<close>

theorem priority_threshold:
  "priority_of (message_attributes total_amount)
     = Some (if total_amount < 500 then ''normal'' else ''high'')
   \<and> priority_of (message_attributes 499.99) = Some ''normal''
   \<and> priority_of (message_attributes 500.00) = Some ''high''
   \<and> priority_of (snd (produce now order_id order_counter))
     = Some (if order_counter mod 5 = 1 then ''high'' else ''normal'')"
proof -
  have a: "priority_of (message_attributes t) = Some (if t < 500 then ''normal'' else ''high'')" for t
    by (simp add: priority_of_def message_attributes_def)
  have len: "int (length order_templates) = 5" by (simp add: order_templates_def)
  define k where "k = nat ((order_counter - 1) mod 5)"
  have rng: "0 \<le> (order_counter - 1) mod 5" "(order_counter - 1) mod 5 < 5" by simp_all
  have "k < 5" unfolding k_def using rng by linarith
  then have cases: "k = 0 \<or> k = 1 \<or> k = 2 \<or> k = 3 \<or> k = 4" by linarith
  have "(order_counter mod 5 = 1) = ((order_counter - 1) mod 5 = 0)" by presburger
  also have "\<dots> = (k = 0)" unfolding k_def using rng by linarith
  finally have hi: "(order_counter mod 5 = 1) = (k = 0)" .
  have p: "priority_of (snd (produce now order_id order_counter))
     = Some (if order_counter mod 5 = 1 then ''high'' else ''normal'')"
    using cases
    by (auto simp: produce_def Let_def a len hi k_def[symmetric] order_templates_def)
  show ?thesis using a[of total_amount] a[of "499.99"] a[of "500.00"] p by simp
qed

section \<open>What the handler is given\<close>

lemma order_dispatch_parsed:
  assumes "loads env arg = Inr v"
  shows "handler_args (snd (order_dispatch env n m arg)) = [Text arg]
         \<and> succeeded_handles (snd (order_dispatch env n m arg))
             = (if \<exists>order. order_transition env (utcnow env n) v = Inr order
                then [ReceiptHandle m] else [])
         \<and> deleted_handles (snd (order_dispatch env n m arg))
             = (if \<exists>order. order_transition env (utcnow env n) v = Inr order
                then [ReceiptHandle m] else [])"
  using delete_message_cases[of env "ReceiptHandle m"]
  by (cases "order_transition env (utcnow env n) v")
     (auto simp: order_dispatch_def process_order_parsed[OF assms] trace_Cons split: sum.splits)

lemma notify_dispatch_args: "handler_args (snd (notify_dispatch env m v)) = [Parsed v]"
  using send_notification_returns[of env v] delete_message_cases[of env "ReceiptHandle m"]
  by (auto simp: notify_dispatch_def trace_Cons split: sum.splits)

lemma order_handle_message_parsed:
  assumes "order_decode env m = Inr arg" and "loads env arg = Inr v"
  shows "handler_args (snd (order_handle_message env n m)) = [Text arg]
         \<and> succeeded_handles (snd (order_handle_message env n m))
             = (if \<exists>order. order_transition env (utcnow env n) v = Inr order
                then [ReceiptHandle m] else [])
         \<and> deleted_handles (snd (order_handle_message env n m))
             = (if \<exists>order. order_transition env (utcnow env n) v = Inr order
                then [ReceiptHandle m] else [])"
  using order_dispatch_parsed[OF assms(2), of n m]
  by (cases "order_dispatch env n m arg")
     (simp add: order_handle_message_decode assms(1) trace_Cons)

lemma notify_handle_message_parsed:
  assumes "notify_decode env m = Inr v"
  shows "handler_args (snd (notify_handle_message env n m)) = [Parsed v]
         \<and> deleted_handles (snd (notify_handle_message env n m))
             = (if fst (send_notification env v) = Inr True then [ReceiptHandle m] else [])"
  using notify_dispatch_args[of env m v] notify_dispatch_deleted[of env m v]
  by (cases "notify_dispatch env m v")
     (simp add: notify_handle_message_decode assms trace_Cons)

text \<open>
  C2. When the body parses to a mapping with a \<open>Message\<close> entry, the loop takes the
  value of that entry and parses it once more if it is a str; call the result the
  payload. The notification consumer calls its handler on the payload, and deletes the
  message exactly when \<^verbatim>\<open>send_notification\<close> succeeds on the payload. The
  order-processing consumer calls \<^verbatim>\<open>process_order\<close> on the payload's
  serialisation; given that \<^verbatim>\<open>json.loads\<close> reads that text back as the
  payload, the handler succeeds, and the message is deleted, exactly when the handler's
  statements succeed on the payload. The wrapper is not what the handler works on.
\<close>

theorem wrapped_body_is_unwrapped:
  assumes "loads env (Body m) = Inr (JObj kv)"
    and "map_of kv ''Message'' = Some sns_message"
    and "second_parse env sns_message = Inr payload"
    and "loads env (dumps env payload) = Inr payload"
  shows "handler_args (snd (order_handle_message env n m)) = [Text (dumps env payload)]
         \<and> succeeded_handles (snd (order_handle_message env n m))
             = (if \<exists>order. order_transition env (utcnow env n) payload = Inr order
                then [ReceiptHandle m] else [])
         \<and> deleted_handles (snd (order_handle_message env n m))
             = (if \<exists>order. order_transition env (utcnow env n) payload = Inr order
                then [ReceiptHandle m] else [])
         \<and> handler_args (snd (notify_handle_message env n m)) = [Parsed payload]
         \<and> deleted_handles (snd (notify_handle_message env n m))
             = (if fst (send_notification env payload) = Inr True then [ReceiptHandle m] else [])
         \<and> second_parse env (JStr s) = loads env s"
proof -
  have od: "order_decode env m = Inr (dumps env payload)"
    using assms(1-3) by (simp add: order_decode_def and_then_def py_in_def py_getitem_def)
  have nd: "notify_decode env m = Inr payload"
    using assms(1-3) by (simp add: notify_decode_def and_then_def py_in_def py_getitem_def)
  show ?thesis
    using order_handle_message_parsed[OF od assms(4), of n]
      notify_handle_message_parsed[OF nd, of n]
    by (simp add: second_parse_def)
qed

theorem wrapped_body_is_unwrapped_witness:
  "handler_args (snd (order_handle_message sample_env 1 wrapped_message))
     = [Text sample_order_text]
   \<and> succeeded_handles (snd (order_handle_message sample_env 1 wrapped_message)) = [''rh-1'']
   \<and> deleted_handles (snd (order_handle_message sample_env 1 wrapped_message)) = [''rh-1'']
   \<and> handler_args (snd (notify_handle_message sample_env 1 wrapped_message))
     = [Parsed sample_order]
   \<and> deleted_handles (snd (notify_handle_message sample_env 1 wrapped_message)) = [''rh-1'']"
proof -
  have 1: "loads sample_env (Body wrapped_message)
             = Inr (JObj [(''Type'', JStr ''Notification''), (''Message'', JStr sample_order_text)])"
    by (simp add: wrapped_message_def sample_env_simps sample_loads_simps envelope_def)
  have 2: "map_of [(''Type'', JStr ''Notification''), (''Message'', JStr sample_order_text)] ''Message''
             = Some (JStr sample_order_text)"
    by simp
  have 3: "loads sample_env (dumps sample_env sample_order) = Inr sample_order"
    by (simp add: sample_env_simps sample_dumps_simps sample_loads_simps)
  show ?thesis
    using wrapped_body_is_unwrapped[OF 1 2 second_parse_samples(1) 3, of 1]
    by (simp add: sample_env_simps sample_dumps_simps order_transition_sample
          send_notification_sample sample_handles)
qed

text \<open>
  C6. When the body parses to a mapping without a \<open>Message\<close> entry, that mapping is
  the payload. The notification consumer calls its handler on it, and deletes the message
  exactly when \<^verbatim>\<open>send_notification\<close> succeeds on it. The order-processing
  consumer calls \<^verbatim>\<open>process_order\<close> on the body's text, and the handler succeeds,
  and the message is deleted, exactly when the handler's statements succeed on the
  first-parsed mapping.
\<close>

theorem direct_body_is_the_payload:
  assumes "loads env (Body m) = Inr (JObj kv)"
    and "map_of kv ''Message'' = None"
  shows "handler_args (snd (order_handle_message env n m)) = [Text (Body m)]
         \<and> succeeded_handles (snd (order_handle_message env n m))
             = (if \<exists>order. order_transition env (utcnow env n) (JObj kv) = Inr order
                then [ReceiptHandle m] else [])
         \<and> deleted_handles (snd (order_handle_message env n m))
             = (if \<exists>order. order_transition env (utcnow env n) (JObj kv) = Inr order
                then [ReceiptHandle m] else [])
         \<and> handler_args (snd (notify_handle_message env n m)) = [Parsed (JObj kv)]
         \<and> deleted_handles (snd (notify_handle_message env n m))
             = (if fst (send_notification env (JObj kv)) = Inr True
                then [ReceiptHandle m] else [])"
proof -
  have od: "order_decode env m = Inr (Body m)"
    using assms by (simp add: order_decode_def and_then_def py_in_def)
  have nd: "notify_decode env m = Inr (JObj kv)"
    using assms by (simp add: notify_decode_def and_then_def py_in_def)
  show ?thesis
    using order_handle_message_parsed[OF od assms(1), of n]
      notify_handle_message_parsed[OF nd, of n]
    by simp
qed

theorem direct_body_is_the_payload_witness:
  "handler_args (snd (order_handle_message sample_env 1 direct_message))
     = [Text sample_order_text]
   \<and> succeeded_handles (snd (order_handle_message sample_env 1 direct_message)) = [''rh-2'']
   \<and> deleted_handles (snd (order_handle_message sample_env 1 direct_message)) = [''rh-2'']
   \<and> handler_args (snd (notify_handle_message sample_env 1 direct_message))
     = [Parsed sample_order]
   \<and> deleted_handles (snd (notify_handle_message sample_env 1 direct_message)) = [''rh-2'']"
proof -
  let ?kv = "[(''order_id'', JStr ''ORD-001''), (''customer_id'', JStr ''CUST-001''),
       (''items'', JArr [JStr ''Laptop'', JStr ''Mouse'']),
       (''total_amount'', JFloat (Finite 1200)),
       (''timestamp'', JStr ''2024-05-01T10:00:00+00:00''),
       (''status'', JStr ''pending'')]"
  have 3: "sample_order = JObj ?kv"
    by (simp add: sample_order_def create_order_message_def)
  have 1: "loads sample_env (Body direct_message) = Inr (JObj ?kv)"
    by (simp add: direct_message_def sample_env_simps sample_loads_simps 3[symmetric])
  have 2: "map_of ?kv ''Message'' = None"
    by simp
  have b: "Body direct_message = sample_order_text" by (simp add: direct_message_def)
  show ?thesis
    using direct_body_is_the_payload[OF 1 2, of 1, folded 3]
    by (simp add: b order_transition_sample send_notification_sample sample_handles)
qed

section \<open>Redelivery\<close>





section \<open>The handler's parse on the wrapped path\<close>

lemma order_dispatch_reserialised:
  assumes "loads env arg = Inr v'"
  shows "Print Error_parsing \<notin> set (snd (order_dispatch env n m arg))
         \<and> (\<forall>h a. Handled h a False \<in> set (snd (order_dispatch env n m arg)) \<longrightarrow>
               a = Text arg \<and> (\<exists>e. order_transition env (utcnow env n) v' = Inl e
                 \<and> (e = KeyError \<or> e = TypeError \<or> e = ValueError \<or> e = OverflowError
                      \<or> e = UnicodeEncodeError)))"
proof (cases "order_transition env (utcnow env n) v'")
  case (Inr order)
  then show ?thesis
    using delete_message_cases[of env "ReceiptHandle m"]
    by (auto simp: order_dispatch_def process_order_parsed[OF assms] split: sum.splits)
next
  case (Inl e)
  from order_transition_errors[OF Inl] Inl show ?thesis
    by (auto simp: order_dispatch_def process_order_parsed[OF assms])
qed

text \<open>
  C10, as the specification states it: on the wrapped path a failure of the handler can
  only arise from a missing or ill-typed field of the order. The order below arrives
  wrapped, has every field that \<^verbatim>\<open>process_order\<close> reads, each of the type the
  handler expects, and the handler fails on it: its \<open>order_id\<close> is a lone surrogate,
  which \<^verbatim>\<open>json.loads\<close> accepts and \<^verbatim>\<open>print\<close> cannot encode, so the first
  \<^verbatim>\<open>print\<close> inside the \<^verbatim>\<open>try\<close> raises \<open>UnicodeEncodeError\<close>.
\<close>

theorem wrapped_order_fails_in_print:
  "order_handle_message sample_env 1 wrapped_surrogate_message
     = (None, [Inc Received, Print (Received_message 1), Print Error_processing, Inc Failed,
               Observe, Handled ''rh-6'' (Text sample_surrogate_text) False])
   \<and> py_getitem sample_surrogate ''order_id'' = Inr (JStr [CHR 0xFF])
   \<and> py_getitem sample_surrogate ''customer_id'' = Inr (JStr ''CUST-009'')
   \<and> py_getitem sample_surrogate ''items'' = Inr (JArr [JStr ''Laptop'', JStr ''Mouse''])
   \<and> py_join '', '' (JArr [JStr ''Laptop'', JStr ''Mouse'']) = Inr ''Laptop, Mouse''
   \<and> py_getitem sample_surrogate ''total_amount'' = Inr (JFloat (Finite 1200))
   \<and> py_format_2f (JFloat (Finite 1200)) = Inr ()
   \<and> py_getitem sample_surrogate ''status'' = Inr (JStr ''pending'')"
  by (simp add: order_handle_wrapped_surrogate sample_surrogate_def create_order_message_def
        py_getitem_def py_join_def py_format_2f_def)

text \<open>
  C10, amended: on the wrapped path \<^verbatim>\<open>process_order\<close> is called with
  \<^verbatim>\<open>json.dumps\<close> of the value that the second parse gave. When \<^verbatim>\<open>json.loads\<close>
  reads that text back, the handler's branch for \<open>JSONDecodeError\<close> is not taken,
  and a failure of the handler comes from the statements after its parse: a missing
  field (\<open>KeyError\<close>), an ill-typed one (\<open>TypeError\<close>, \<open>ValueError\<close>), a total too
  large to format (\<open>OverflowError\<close>) or a text that standard output cannot encode
  (\<open>UnicodeEncodeError\<close>).
\<close>

theorem wrapped_path_never_fails_to_parse:
  assumes body: "loads env (Body m) = Inr body"
    and wrapped: "py_in ''Message'' body = Inr True"
    and lib: "\<And>sns v. py_getitem body ''Message'' = Inr sns \<Longrightarrow> second_parse env sns = Inr v
                \<Longrightarrow> \<exists>v'. loads env (dumps env v) = Inr v'"
  shows "Print Error_parsing \<notin> set (snd (order_handle_message env n m))
         \<and> (\<forall>h a. Handled h a False \<in> set (snd (order_handle_message env n m)) \<longrightarrow>
               (\<exists>sns v v' e. py_getitem body ''Message'' = Inr sns
                  \<and> second_parse env sns = Inr v
                  \<and> a = Text (dumps env v) \<and> loads env (dumps env v) = Inr v'
                  \<and> order_transition env (utcnow env n) v' = Inl e
                  \<and> (e = KeyError \<or> e = TypeError \<or> e = ValueError \<or> e = OverflowError
                       \<or> e = UnicodeEncodeError)))"
proof (cases "and_then (py_getitem body ''Message'') (second_parse env)")
  case (Inl e)
  then have "snd (order_handle_message env n m) = [Inc Received, Print (Received_message n)]"
    by (auto simp: order_handle_message_def Let_def body wrapped and_then_def split: sum.splits)
  then show ?thesis by simp
next
  case (Inr v)
  then obtain sns where sns: "py_getitem body ''Message'' = Inr sns" "second_parse env sns = Inr v"
    by (auto simp: and_then_def split: sum.splits)
  obtain v' where v': "loads env (dumps env v) = Inr v'" using lib[OF sns] by blast
  obtain r ev where d: "order_dispatch env n m (dumps env v) = (r, ev)"
    by (cases "order_dispatch env n m (dumps env v)")
  have tr: "snd (order_handle_message env n m) = [Inc Received, Print (Received_message n)] @ ev"
    using sns d
    by (simp add: order_handle_message_def Let_def body wrapped)
  show ?thesis
    using order_dispatch_reserialised[where n=n and m=m, OF v'] v' sns unfolding tr d
    by simp
qed

theorem wrapped_path_never_fails_to_parse_witness:
  "Print Error_parsing \<notin> set (snd (order_handle_message sample_env 1 wrapped_incomplete_message))
   \<and> Handled ''rh-5'' (Text sample_incomplete_text) False
       \<in> set (snd (order_handle_message sample_env 1 wrapped_incomplete_message))
   \<and> (\<exists>sns v v' e. py_getitem (envelope sample_incomplete_text) ''Message'' = Inr sns
         \<and> second_parse sample_env sns = Inr v
         \<and> Text sample_incomplete_text = Text (dumps sample_env v)
         \<and> loads sample_env (dumps sample_env v) = Inr v'
         \<and> order_transition sample_env (utcnow sample_env 1) v' = Inl e
         \<and> (e = KeyError \<or> e = TypeError \<or> e = ValueError \<or> e = OverflowError
              \<or> e = UnicodeEncodeError))"
proof -
  have 1: "loads sample_env (Body wrapped_incomplete_message)
             = Inr (envelope sample_incomplete_text)"
    by (simp add: wrapped_incomplete_message_def sample_env_simps sample_loads_simps)
  have 2: "py_in ''Message'' (envelope sample_incomplete_text) = Inr True"
    by (simp add: py_in_samples)
  have 3: "\<exists>v'. loads sample_env (dumps sample_env v) = Inr v'"
    if "py_getitem (envelope sample_incomplete_text) ''Message'' = Inr sns"
      and "second_parse sample_env sns = Inr v" for sns v
  proof -
    from that have "v = sample_incomplete"
      by (auto simp: py_getitem_envelope second_parse_samples)
    then show ?thesis
      by (simp add: sample_env_simps sample_dumps_simps sample_loads_simps)
  qed
  have 4: "Handled ''rh-5'' (Text sample_incomplete_text) False
       \<in> set (snd (order_handle_message sample_env 1 wrapped_incomplete_message))"
    by (simp add: order_handle_wrapped_incomplete)
  have a: "Print Error_parsing
      \<notin> set (snd (order_handle_message sample_env 1 wrapped_incomplete_message))"
    by (rule wrapped_path_never_fails_to_parse[where n=1, OF 1 2, THEN conjunct1])
      (rule 3, assumption+)
  have "\<forall>h a. Handled h a False
          \<in> set (snd (order_handle_message sample_env 1 wrapped_incomplete_message)) \<longrightarrow>
      (\<exists>sns v v' e. py_getitem (envelope sample_incomplete_text) ''Message'' = Inr sns
         \<and> second_parse sample_env sns = Inr v
         \<and> a = Text (dumps sample_env v)
         \<and> loads sample_env (dumps sample_env v) = Inr v'
         \<and> order_transition sample_env (utcnow sample_env 1) v' = Inl e
         \<and> (e = KeyError \<or> e = TypeError \<or> e = ValueError \<or> e = OverflowError
              \<or> e = UnicodeEncodeError))"
    by (rule wrapped_path_never_fails_to_parse[where n=1, OF 1 2, THEN conjunct2])
      (rule 3, assumption+)
  from this[rule_format, OF 4] have b:
    "\<exists>sns v v' e. py_getitem (envelope sample_incomplete_text) ''Message'' = Inr sns
         \<and> second_parse sample_env sns = Inr v
         \<and> Text sample_incomplete_text = Text (dumps sample_env v)
         \<and> loads sample_env (dumps sample_env v) = Inr v'
         \<and> order_transition sample_env (utcnow sample_env 1) v' = Inl e
         \<and> (e = KeyError \<or> e = TypeError \<or> e = ValueError \<or> e = OverflowError
              \<or> e = UnicodeEncodeError)" .
  from a 4 b show ?thesis by (intro conjI)
qed

section \<open>Metrics\<close>

lemma for_messages_trace:
  assumes nil: "P []"
    and app: "\<And>xs ys. P xs \<Longrightarrow> P ys \<Longrightarrow> P (xs @ ys)"
    and body: "\<And>n m. P (snd (handle n m))"
  shows "P (snd (snd (for_messages handle c ms)))"
proof (induction ms arbitrary: c)
  case Nil
  show ?case by (simp add: nil)
next
  case (Cons m ms)
  obtain r ev where h: "handle (Suc c) m = (r, ev)" by (cases "handle (Suc c) m")
  have ev: "P ev" using body[of "Suc c" m] h by simp
  obtain r' c' ev' where f: "for_messages handle (Suc c) ms = (r', c', ev')"
    by (cases "for_messages handle (Suc c) ms")
  have ev': "P ev'" using Cons.IH[of "Suc c"] f by simp
  show ?case
    by (cases r) (simp_all add: h f ev app[OF ev ev'])
qed

lemma consumer_loop_trace:
  assumes nil: "P []"
    and app: "\<And>xs ys. P xs \<Longrightarrow> P ys \<Longrightarrow> P (xs @ ys)"
    and line: "\<And>l. P [Print l]"
    and body: "\<And>n m. P (snd (handle n m))"
  shows "P (snd (snd (consumer_loop handle c script)))"
proof (induction script arbitrary: c)
  case Nil
  show ?case by (simp add: nil)
next
  case (Cons sdk script)
  obtain r ev where rm: "receive_messages sdk = (r, ev)" by (cases "receive_messages sdk")
  have ev: "P ev"
    using receive_messages_events[of sdk] rm nil line by auto
  have leave: "P (snd (snd (leave_loop e k tr)))" if "P tr" for e k tr
    using that app[OF that line] by (simp add: leave_loop_def)
  show ?case
  proof (cases r)
    case (Inl e)
    then show ?thesis using leave[OF ev] by (simp add: rm)
  next
    case (Inr messages)
    obtain r' c' ev' where f: "for_messages handle c messages = (r', c', ev')"
      by (cases "for_messages handle c messages")
    have ev': "P ev'"
      using for_messages_trace[of P handle c messages, OF nil app body] f by simp
    show ?thesis
    proof (cases "messages = []")
      case True
      obtain st k tr where l: "consumer_loop handle c script = (st, k, tr)"
        by (cases "consumer_loop handle c script")
      have "P tr" using Cons.IH[of c] l by simp
      then have "P (ev @ [Print Dot] @ tr)" by (intro app ev line)
      then show ?thesis by (simp add: rm Inr True l)
    next
      case False
      show ?thesis
      proof (cases r')
        case None
        obtain st k tr where l: "consumer_loop handle c' script = (st, k, tr)"
          by (cases "consumer_loop handle c' script")
        have "P tr" using Cons.IH[of c'] l by simp
        then have "P (ev @ ev' @ tr)" by (intro app ev ev')
        then show ?thesis by (simp add: rm Inr False f None l)
      next
        case (Some e)
        then show ?thesis using leave[OF app[OF ev ev']] by (simp add: rm Inr False f)
      qed
    qed
  qed
qed

lemma order_dispatch_metrics:
  "order_dispatch env n m arg = (r, ev) \<Longrightarrow>
     counted Processed ev = length (succeeded_handles ev)
     \<and> counted Failed ev = length (failed_handles ev)
     \<and> length (succeeded_handles ev) + length (failed_handles ev) \<le> observed ev
     \<and> observed ev = 1 \<and> counted Received ev = 0
     \<and> (r = None \<longrightarrow> counted Processed ev + counted Failed ev = 1)"
  using process_order_cases[of env "utcnow env n" arg] delete_message_cases[of env "ReceiptHandle m"]
  by (auto simp: order_dispatch_def trace_Cons split: sum.splits)

lemma order_handle_message_metrics:
  assumes "order_handle_message env n m = (r, ev)"
  shows "balanced ev \<and> counted Received ev = 1
         \<and> (r = None \<longrightarrow> counted Processed ev + counted Failed ev = 1 \<and> observed ev = 1)"
  using assms
  by (auto simp: order_handle_message_def Let_def balanced_def trace_Cons
           split: sum.splits prod.splits if_splits dest!: order_dispatch_metrics)

lemma notify_dispatch_metrics:
  "counted c (snd (notify_dispatch env m arg)) = 0 \<and> observed (snd (notify_dispatch env m arg)) = 0"
  using send_notification_cases[of env arg] delete_message_cases[of env "ReceiptHandle m"]
  by (auto simp: notify_dispatch_def trace_Cons split: sum.splits)

lemma notify_handle_message_metrics:
  "counted c (snd (notify_handle_message env n m)) = 0
   \<and> observed (snd (notify_handle_message env n m)) = 0"
proof -
  have d: "notify_dispatch env m arg = (r, ev) \<Longrightarrow> counted c ev = 0 \<and> observed ev = 0" for arg r ev
    using notify_dispatch_metrics[of c env m arg] by simp
  show ?thesis
    by (auto simp: notify_handle_message_def Let_def trace_Cons
             split: sum.splits prod.splits dest!: d)
qed

lemma for_messages_count:
  fixes g :: "event list \<Rightarrow> nat"
  assumes nil: "g [] = 0"
    and app: "\<And>xs ys. g (xs @ ys) = g xs + g ys"
    and body: "\<And>n m. g (snd (handle n m)) = 1"
  shows "fst (snd (for_messages handle c ms)) = c + g (snd (snd (for_messages handle c ms)))"
proof (induction ms arbitrary: c)
  case Nil
  show ?case by (simp add: nil)
next
  case (Cons m ms)
  obtain r ev where h: "handle (Suc c) m = (r, ev)" by (cases "handle (Suc c) m")
  have ev: "g ev = 1" using body[of "Suc c" m] h by simp
  obtain r' c' ev' where f: "for_messages handle (Suc c) ms = (r', c', ev')"
    by (cases "for_messages handle (Suc c) ms")
  have ev': "c' = Suc c + g ev'" using Cons.IH[of "Suc c"] f by simp
  show ?case
    by (cases r) (simp_all add: h f ev ev' app)
qed

lemma consumer_loop_count:
  fixes g :: "event list \<Rightarrow> nat"
  assumes nil: "g [] = 0"
    and app: "\<And>xs ys. g (xs @ ys) = g xs + g ys"
    and line: "\<And>l. g [Print l] = 0"
    and body: "\<And>n m. g (snd (handle n m)) = 1"
  shows "fst (snd (consumer_loop handle c script)) = c + g (snd (snd (consumer_loop handle c script)))"
proof (induction script arbitrary: c)
  case Nil
  show ?case by (simp add: nil)
next
  case (Cons sdk script)
  obtain r ev where rm: "receive_messages sdk = (r, ev)" by (cases "receive_messages sdk")
  have ev: "g ev = 0"
    using receive_messages_events[of sdk] rm nil line by auto
  have cons: "g (Print l # t) = g t" for l t
    using app[of "[Print l]" t] line[of l] by simp
  have leave: "fst (snd (leave_loop e k tr)) = k \<and> g (snd (snd (leave_loop e k tr))) = g tr" for e k tr
    by (simp add: leave_loop_def app line)
  show ?case
  proof (cases r)
    case (Inl e)
    then show ?thesis using leave[of e c ev] by (simp add: rm ev)
  next
    case (Inr messages)
    obtain r' c' ev' where f: "for_messages handle c messages = (r', c', ev')"
      by (cases "for_messages handle c messages")
    have ev': "c' = c + g ev'"
      using for_messages_count[of g handle c messages, OF nil app body] f by simp
    show ?thesis
    proof (cases "messages = []")
      case True
      obtain st k tr where l: "consumer_loop handle c script = (st, k, tr)"
        by (cases "consumer_loop handle c script")
      have "k = c + g tr" using Cons.IH[of c] l by simp
      then show ?thesis by (simp add: rm Inr True l app ev cons)
    next
      case False
      show ?thesis
      proof (cases r')
        case None
        obtain st k tr where l: "consumer_loop handle c' script = (st, k, tr)"
          by (cases "consumer_loop handle c' script")
        have k: "k = c' + g tr" using Cons.IH[of c'] l by simp
        have "fst (snd (consumer_loop handle c (sdk # script))) = k"
          by (simp add: rm Inr False f None l)
        moreover have "snd (snd (consumer_loop handle c (sdk # script))) = ev @ ev' @ tr"
          by (simp add: rm Inr False f None l)
        ultimately show ?thesis using k ev ev' by (simp add: app)
      next
        case (Some e)
        then show ?thesis using leave[of e c' "ev @ ev'"] by (simp add: rm Inr False f app ev ev')
      qed
    qed
  qed
qed

lemma for_messages_complete:
  fixes g :: "event list \<Rightarrow> nat"
  assumes nil: "g [] = 0"
    and app: "\<And>xs ys. g (xs @ ys) = g xs + g ys"
    and body: "\<And>n m ev. handle n m = (None, ev) \<Longrightarrow> g ev = 1"
  shows "for_messages handle c ms = (None, c', tr) \<Longrightarrow> c' = c + g tr"
proof (induction ms arbitrary: c c' tr)
  case Nil
  then show ?case by (simp add: nil)
next
  case (Cons m ms)
  obtain r ev where h: "handle (Suc c) m = (r, ev)" by (cases "handle (Suc c) m")
  obtain r' k ev' where f: "for_messages handle (Suc c) ms = (r', k, ev')"
    by (cases "for_messages handle (Suc c) ms")
  from Cons.prems have r: "r = None" and r': "r' = None" and k: "c' = k" and tr: "tr = ev @ ev'"
    by (auto simp: h f split: option.splits)
  have "g ev = 1" using body h r by simp
  moreover have "k = Suc c + g ev'" using Cons.IH[of "Suc c" k ev'] f r' by simp
  ultimately show ?case by (simp add: k tr app)
qed

lemma consumer_loop_complete:
  fixes g :: "event list \<Rightarrow> nat"
  assumes nil: "g [] = 0"
    and app: "\<And>xs ys. g (xs @ ys) = g xs + g ys"
    and line: "\<And>l. g [Print l] = 0"
    and body: "\<And>n m ev. handle n m = (None, ev) \<Longrightarrow> g ev = 1"
  shows "consumer_loop handle c script = (Polling, c', tr) \<Longrightarrow> c' = c + g tr"
proof (induction script arbitrary: c c' tr)
  case Nil
  then show ?case by (simp add: nil)
next
  case (Cons sdk script)
  obtain r ev where rm: "receive_messages sdk = (r, ev)" by (cases "receive_messages sdk")
  have ev: "g ev = 0"
    using receive_messages_events[of sdk] rm nil line by auto
  have cons: "g (Print l # t) = g t" for l t
    using app[of "[Print l]" t] line[of l] by simp
  have leave: "fst (leave_loop e k t) \<noteq> Polling" for e k t
    by (simp add: leave_loop_def)
  show ?case
  proof (cases r)
    case (Inl e)
    then show ?thesis using Cons.prems leave[of e c ev] by (simp add: rm)
  next
    case (Inr messages)
    obtain r' k ev' where f: "for_messages handle c messages = (r', k, ev')"
      by (cases "for_messages handle c messages")
    show ?thesis
    proof (cases "messages = []")
      case True
      obtain st k' t where l: "consumer_loop handle c script = (st, k', t)"
        by (cases "consumer_loop handle c script")
      from Cons.prems have "st = Polling" "c' = k'" "tr = ev @ [Print Dot] @ t"
        by (simp_all add: rm Inr True l)
      moreover have "st = Polling \<Longrightarrow> k' = c + g t" using Cons.IH[of c k' t] l by simp
      ultimately show ?thesis by (simp add: app ev cons)
    next
      case False
      show ?thesis
      proof (cases r')
        case None
        have k: "k = c + g ev'"
          using for_messages_complete[of g handle c messages k ev', OF nil app body] f None by simp
        obtain st k' t where l: "consumer_loop handle k script = (st, k', t)"
          by (cases "consumer_loop handle k script")
        from Cons.prems have "st = Polling" "c' = k'" "tr = ev @ ev' @ t"
          by (simp_all add: rm Inr False f None l)
        moreover have "st = Polling \<Longrightarrow> k' = k + g t" using Cons.IH[of k k' t] l by simp
        ultimately show ?thesis by (simp add: app ev k)
      next
        case (Some e)
        then show ?thesis using Cons.prems leave[of e k "ev @ ev'"] by (simp add: rm Inr False f)
      qed
    qed
  qed
qed

text \<open>
  C4, as the specification states it: in both consumers, every handle pulled increments
  \<open>received\<close> and one of \<open>processed\<close> and \<open>failed\<close>, and records a
  duration. The notification consumer declares no counter and no histogram: it receives
  and handles the message below with success and records nothing.
\<close>

theorem notification_has_no_metrics:
  "fst (snd (notification_main sample_env [Inr (Some [wrapped_message])])) = 1
   \<and> succeeded_handles (snd (snd (notification_main sample_env [Inr (Some [wrapped_message])])))
       = [''rh-1'']
   \<and> counted Received (snd (snd (notification_main sample_env [Inr (Some [wrapped_message])]))) = 0
   \<and> counted Processed (snd (snd (notification_main sample_env [Inr (Some [wrapped_message])]))) = 0
   \<and> observed (snd (snd (notification_main sample_env [Inr (Some [wrapped_message])]))) = 0"
  by (simp add: notification_main_def receive_messages_def notify_handle_wrapped trace_Cons)

text \<open>
  C4, amended: in the order-processing consumer, \<open>received\<close> counts the handles
  pulled (it equals \<open>message_count\<close>); \<open>processed\<close> counts the handles whose
  handler returned success and \<open>failed\<close> those whose handler returned failure; every
  such return has recorded a duration, and there are no more durations than handles
  received; and as long as no exception has left the loop, each handle received has
  incremented exactly one of \<open>processed\<close> and \<open>failed\<close> and recorded one
  duration. The notification consumer increments no counter and records no duration.
\<close>

theorem order_processing_metrics:
  "counted Received (snd (snd (order_processing_main env script)))
     = fst (snd (order_processing_main env script))
   \<and> counted Processed (snd (snd (order_processing_main env script)))
     = length (succeeded_handles (snd (snd (order_processing_main env script))))
   \<and> counted Failed (snd (snd (order_processing_main env script)))
     = length (failed_handles (snd (snd (order_processing_main env script))))
   \<and> length (succeeded_handles (snd (snd (order_processing_main env script))))
       + length (failed_handles (snd (snd (order_processing_main env script))))
     \<le> observed (snd (snd (order_processing_main env script)))
   \<and> observed (snd (snd (order_processing_main env script)))
     \<le> counted Received (snd (snd (order_processing_main env script)))
   \<and> (fst (order_processing_main env script) = Polling \<longrightarrow>
        counted Processed (snd (snd (order_processing_main env script)))
          + counted Failed (snd (snd (order_processing_main env script)))
          = counted Received (snd (snd (order_processing_main env script)))
        \<and> observed (snd (snd (order_processing_main env script)))
          = counted Received (snd (snd (order_processing_main env script))))
   \<and> counted c (snd (snd (notification_main env script))) = 0
   \<and> observed (snd (snd (notification_main env script))) = 0"
proof -
  obtain st k tr where run: "order_processing_main env script = (st, k, tr)"
    by (cases "order_processing_main env script")
  then have loop: "consumer_loop (order_handle_message env) 0 script = (st, k, tr)"
    by (simp add: order_processing_main_def)
  have body: "balanced (snd (order_handle_message env n m))"
      "counted Received (snd (order_handle_message env n m)) = 1" for n m
    using order_handle_message_metrics[of env n m]
    by (cases "order_handle_message env n m", simp)+
  have done1: "order_handle_message env n m = (None, ev) \<Longrightarrow>
      counted Processed ev + counted Failed ev = 1" for n m ev
    using order_handle_message_metrics[of env n m None ev] by simp
  have done2: "order_handle_message env n m = (None, ev) \<Longrightarrow> observed ev = 1" for n m ev
    using order_handle_message_metrics[of env n m None ev] by simp
  have bal: "balanced tr"
    using consumer_loop_trace[of balanced "order_handle_message env" 0 script] body(1) loop
    by (simp add: balanced_def trace_append trace_Cons)
  have rec: "k = counted Received tr"
    using consumer_loop_count[of "counted Received" "order_handle_message env" 0 script]
      body(2) loop
    by (simp add: trace_append trace_Cons)
  have pf: "st = Polling \<Longrightarrow> k = counted Processed tr + counted Failed tr"
    using consumer_loop_complete[of "\<lambda>ev. counted Processed ev + counted Failed ev"
        "order_handle_message env" 0 script k tr] done1 loop
    by (simp add: trace_append trace_Cons)
  have ob: "st = Polling \<Longrightarrow> k = observed tr"
    using consumer_loop_complete[of observed "order_handle_message env" 0 script k tr] done2 loop
    by (simp add: trace_append trace_Cons)
  let ?Z = "\<lambda>ev. counted c ev = 0 \<and> observed ev = 0"
  have "?Z (snd (snd (consumer_loop (notify_handle_message env) 0 script)))"
    by (rule consumer_loop_trace[of ?Z])
       (simp_all add: trace_append trace_Cons notify_handle_message_metrics)
  then have nz: "?Z (snd (snd (notification_main env script)))"
    by (simp add: notification_main_def)
  show ?thesis
    using bal rec pf ob nz by (simp add: run balanced_def)
qed

theorem order_processing_metrics_witness:
  "fst (order_processing_main sample_env
          [Inr (Some [wrapped_message, incomplete_message]), Inr None]) = Polling
   \<and> counted Received (snd (snd (order_processing_main sample_env
          [Inr (Some [wrapped_message, incomplete_message]), Inr None]))) = 2
   \<and> counted Processed (snd (snd (order_processing_main sample_env
          [Inr (Some [wrapped_message, incomplete_message]), Inr None]))) = 1
   \<and> counted Failed (snd (snd (order_processing_main sample_env
          [Inr (Some [wrapped_message, incomplete_message]), Inr None]))) = 1
   \<and> observed (snd (snd (order_processing_main sample_env
          [Inr (Some [wrapped_message, incomplete_message]), Inr None]))) = 2"
proof -
  let ?run = "order_processing_main sample_env
                [Inr (Some [wrapped_message, incomplete_message]), Inr None]"
  have st: "fst ?run = Polling" and p: "counted Processed (snd (snd ?run)) = 1"
    and k: "fst (snd ?run) = 2"
    by (simp_all add: order_processing_main_def receive_messages_def order_handle_wrapped
          order_handle_incomplete trace_Cons)
  show ?thesis
    using order_processing_metrics[of sample_env
        "[Inr (Some [wrapped_message, incomplete_message]), Inr None]" Received] st p k
    by simp
qed

end
